theory Spec2Isabelle
  imports Complex_Main
begin

section \<open>JavaScript numbers\<close>

text \<open>
  The platform computes with JavaScript numbers. They are modelled as exact reals extended
  by the three special values a JavaScript computation can produce: \<open>Infinity\<close>,
  \<open>-Infinity\<close> and \<open>NaN\<close>. Rounding of the binary64 format and the sign of zero are
  not modelled: every finite result is the exact real one, and a division of a non-zero
  finite number by zero takes the sign of the numerator.
\<close>

datatype jsnum = Num real | PosInf | NegInf | NaN

instantiation jsnum :: "{uminus, plus, minus, times, inverse, abs}"
begin

fun uminus_jsnum :: "jsnum \<Rightarrow> jsnum" where
  "- (Num a) = Num (- a)"
| "- PosInf = NegInf"
| "- NegInf = PosInf"
| "- NaN = NaN"

fun plus_jsnum :: "jsnum \<Rightarrow> jsnum \<Rightarrow> jsnum" where
  "Num a + Num b = Num (a + b)"
| "NaN + _ = NaN"
| "_ + NaN = NaN"
| "PosInf + NegInf = NaN"
| "NegInf + PosInf = NaN"
| "PosInf + _ = PosInf"
| "_ + PosInf = PosInf"
| "NegInf + _ = NegInf"
| "_ + NegInf = NegInf"

definition minus_jsnum :: "jsnum \<Rightarrow> jsnum \<Rightarrow> jsnum" where
  "minus_jsnum x y = x + (- y)"

fun times_jsnum :: "jsnum \<Rightarrow> jsnum \<Rightarrow> jsnum" where
  "Num a * Num b = Num (a * b)"
| "NaN * _ = NaN"
| "_ * NaN = NaN"
| "PosInf * Num b = (if b = 0 then NaN else if 0 < b then PosInf else NegInf)"
| "NegInf * Num b = (if b = 0 then NaN else if 0 < b then NegInf else PosInf)"
| "Num a * PosInf = (if a = 0 then NaN else if 0 < a then PosInf else NegInf)"
| "Num a * NegInf = (if a = 0 then NaN else if 0 < a then NegInf else PosInf)"
| "PosInf * PosInf = PosInf"
| "PosInf * NegInf = NegInf"
| "NegInf * PosInf = NegInf"
| "NegInf * NegInf = PosInf"

fun divide_jsnum :: "jsnum \<Rightarrow> jsnum \<Rightarrow> jsnum" where
  "Num a div Num b =
     (if b \<noteq> 0 then Num (a / b)
      else if a = 0 then NaN else if 0 < a then PosInf else NegInf)"
| "NaN div _ = NaN"
| "_ div NaN = NaN"
| "Num a div PosInf = Num 0"
| "Num a div NegInf = Num 0"
| "PosInf div Num b = (if 0 \<le> b then PosInf else NegInf)"
| "NegInf div Num b = (if 0 \<le> b then NegInf else PosInf)"
| "_ div _ = NaN"

definition inverse_jsnum :: "jsnum \<Rightarrow> jsnum" where
  "inverse_jsnum x = Num 1 div x"

fun abs_jsnum :: "jsnum \<Rightarrow> jsnum" where
  "\<bar>Num a\<bar> = Num \<bar>a\<bar>"
| "\<bar>PosInf\<bar> = PosInf"
| "\<bar>NegInf\<bar> = PosInf"
| "\<bar>NaN\<bar> = NaN"

instance ..

end

text \<open>\<open>Math.sqrt\<close>, \<open>Math.pow(x, 2)\<close>, \<open>Math.max\<close>, \<open>Math.floor\<close> and \<open>Math.round\<close>.\<close>

fun js_sqrt :: "jsnum \<Rightarrow> jsnum" where
  "js_sqrt (Num a) = (if a < 0 then NaN else Num (sqrt a))"
| "js_sqrt PosInf = PosInf"
| "js_sqrt NegInf = NaN"
| "js_sqrt NaN = NaN"

text \<open>
  The real square root has no code equation that evaluates; for evaluation the root of
  \<open>0\<close> is computed and every other one is left as it is.
\<close>

declare sqrt_def [code del]

lemma js_sqrt_code [code]:
  "js_sqrt (Num a) = (if a < 0 then NaN else if a = 0 then Num 0 else Num (sqrt a))"
  "js_sqrt PosInf = PosInf"
  "js_sqrt NegInf = NaN"
  "js_sqrt NaN = NaN"
  by simp_all

fun js_pow2 :: "jsnum \<Rightarrow> jsnum" where
  "js_pow2 (Num a) = Num (a\<^sup>2)"
| "js_pow2 PosInf = PosInf"
| "js_pow2 NegInf = PosInf"
| "js_pow2 NaN = NaN"

fun js_max :: "jsnum \<Rightarrow> jsnum \<Rightarrow> jsnum" where
  "js_max (Num a) (Num b) = Num (max a b)"
| "js_max NaN _ = NaN"
| "js_max _ NaN = NaN"
| "js_max PosInf _ = PosInf"
| "js_max _ PosInf = PosInf"
| "js_max NegInf y = y"
| "js_max x NegInf = x"

fun js_floor :: "jsnum \<Rightarrow> jsnum" where
  "js_floor (Num a) = Num (of_int \<lfloor>a\<rfloor>)"
| "js_floor x = x"

fun js_round :: "jsnum \<Rightarrow> jsnum" where
  "js_round (Num a) = Num (of_int \<lfloor>a + 1 / 2\<rfloor>)"
| "js_round x = x"

text \<open>The comparisons \<open>>\<close>, \<open><\<close> and \<open>===\<close>: every comparison with \<open>NaN\<close> is false.\<close>

fun js_lt :: "jsnum \<Rightarrow> jsnum \<Rightarrow> bool" where
  "js_lt (Num a) (Num b) = (a < b)"
| "js_lt NaN _ = False"
| "js_lt _ NaN = False"
| "js_lt _ NegInf = False"
| "js_lt PosInf _ = False"
| "js_lt NegInf _ = True"
| "js_lt _ PosInf = True"

definition js_gt :: "jsnum \<Rightarrow> jsnum \<Rightarrow> bool" where
  "js_gt x y = js_lt y x"

definition js_eq :: "jsnum \<Rightarrow> jsnum \<Rightarrow> bool" where
  "js_eq x y = (x \<noteq> NaN \<and> x = y)"

text \<open>\<open>x || d\<close> on numbers: \<open>0\<close> and \<open>NaN\<close> are falsy.\<close>

definition js_or :: "jsnum \<Rightarrow> jsnum \<Rightarrow> jsnum" where
  "js_or x d = (if x = Num 0 \<or> x = NaN then d else x)"

text \<open>
  Reading \<open>xs[i]\<close> in an arithmetic context: an index past the end yields \<open>undefined\<close>,
  which every arithmetic operator turns into \<open>NaN\<close>.
\<close>

definition num_at :: "jsnum list \<Rightarrow> nat \<Rightarrow> jsnum" where
  "num_at xs i = (if i < length xs then xs ! i else NaN)"

text \<open>\<open>xs.reduce((a, b) => a + b, 0)\<close>.\<close>

definition js_sum :: "jsnum list \<Rightarrow> jsnum" where
  "js_sum xs = foldl (+) (Num 0) xs"

section \<open>ModelBuilder: performance metrics\<close>

record Metrics =
  mae :: jsnum
  mse :: jsnum
  rmse :: jsnum
  r2 :: jsnum
  accuracy :: jsnum
  sampleSize :: nat

text \<open>
  One pass of the loop of \<open>calculateMetrics\<close>: the accumulators are
  \<open>(mae, mse, totalSq)\<close>.
\<close>

definition metrics_step ::
  "jsnum list \<Rightarrow> jsnum list \<Rightarrow> jsnum \<Rightarrow> nat \<Rightarrow> jsnum \<times> jsnum \<times> jsnum \<Rightarrow> jsnum \<times> jsnum \<times> jsnum" where
  "metrics_step predictions actuals meanActual i acc =
     (case acc of (mae_acc, mse_acc, totalSq) \<Rightarrow>
        let error = \<bar>num_at predictions i - num_at actuals i\<bar>;
            squaredError = js_pow2 (num_at predictions i - num_at actuals i)
        in (mae_acc + error, mse_acc + squaredError,
            totalSq + js_pow2 (num_at actuals i - meanActual)))"

definition calculateMetrics :: "jsnum list \<Rightarrow> jsnum list \<Rightarrow> Metrics" where
  "calculateMetrics predictions actuals =
     (let n = length predictions;
          meanActual = js_sum actuals / Num (real n);
          (mae_acc, mse_acc, totalSq) =
             fold (metrics_step predictions actuals meanActual) [0..<n] (Num 0, Num 0, Num 0);
          mae_v = mae_acc / Num (real n);
          mse_v = mse_acc / Num (real n);
          r2_v = (if js_eq totalSq (Num 0) then Num 0
                  else Num 1 - (mse_v * Num (real n)) / totalSq);
          rmse_v = js_sqrt mse_v;
          meanPrice = meanActual;
          accuracy_v = js_max (Num 0) ((Num 1 - mae_v / meanPrice) * Num 100)
      in \<lparr>mae = mae_v, mse = mse_v, rmse = rmse_v, r2 = r2_v,
          accuracy = accuracy_v, sampleSize = n\<rparr>)"


section \<open>JavaScript arrays\<close>

text \<open>
  \<open>xs.slice(start, end)\<close> on integer arguments: a negative index counts from the end,
  and both indices are clamped to the array.
\<close>

definition rel_index :: "nat \<Rightarrow> int \<Rightarrow> nat" where
  "rel_index len k = (if k < 0 then nat (max (int len + k) 0) else min (nat k) len)"

definition js_slice :: "'a list \<Rightarrow> int \<Rightarrow> int \<Rightarrow> 'a list" where
  "js_slice xs start stop =
     (let s = rel_index (length xs) start; e = rel_index (length xs) stop
      in take (e - s) (drop s xs))"

text \<open>
  The same for an index that is a JavaScript number: it is truncated towards zero first,
  \<open>NaN\<close> counts as \<open>0\<close>, and the infinities are clamped like any other index.
\<close>

fun num_index :: "nat \<Rightarrow> jsnum \<Rightarrow> nat" where
  "num_index len (Num a) = rel_index len (if 0 \<le> a then \<lfloor>a\<rfloor> else \<lceil>a\<rceil>)"
| "num_index len PosInf = len"
| "num_index len NegInf = 0"
| "num_index len NaN = 0"

definition slice_to :: "'a list \<Rightarrow> jsnum \<Rightarrow> 'a list" where
  \<comment> \<open>\<open>xs.slice(0, end)\<close>\<close>
  "slice_to xs stop = take (num_index (length xs) stop) xs"

definition slice_from :: "'a list \<Rightarrow> jsnum \<Rightarrow> 'a list" where
  \<comment> \<open>\<open>xs.slice(start)\<close>\<close>
  "slice_from xs start = drop (num_index (length xs) start) xs"

text \<open>
  The assignment \<open>xs[i] = v\<close>: past the end it extends the array. The holes it leaves
  read as \<open>undefined\<close>, written \<open>NaN\<close> as in \<open>num_at\<close>.
\<close>

definition js_set :: "jsnum list \<Rightarrow> nat \<Rightarrow> jsnum \<Rightarrow> jsnum list" where
  "js_set xs i v =
     (if i < length xs then xs[i := v] else xs @ replicate (i - length xs) NaN @ [v])"

section \<open>Errors\<close>

text \<open>
  Every \<open>throw\<close> of the source is a value: \<open>Error msg\<close> is \<open>new Error(msg)\<close>, and
  \<open>TypeError\<close> is what the engine raises on a property read of \<open>undefined\<close>.
\<close>

datatype js_error = Error string | TypeError

section \<open>Configuration\<close>

record crypto_config =
  name :: string
  symbol :: string
  iso20022 :: bool
  color :: string
  basePrice :: jsnum
  apiId :: string

definition CRYPTO_CONFIG :: "string \<rightharpoonup> crypto_config" where
  "CRYPTO_CONFIG = map_of
     [(''xrp'', \<lparr>name = ''XRP'', symbol = ''XRP'', iso20022 = True, color = ''#00aae4'',
                basePrice = Num (65 / 100), apiId = ''ripple''\<rparr>),
      (''xlm'', \<lparr>name = ''Stellar'', symbol = ''XLM'', iso20022 = True, color = ''#7c4dff'',
                basePrice = Num (12 / 100), apiId = ''stellar''\<rparr>),
      (''ada'', \<lparr>name = ''Cardano'', symbol = ''ADA'', iso20022 = True, color = ''#0033ad'',
                basePrice = Num (45 / 100), apiId = ''cardano''\<rparr>),
      (''btc'', \<lparr>name = ''Bitcoin'', symbol = ''BTC'', iso20022 = False, color = ''#f7931a'',
                basePrice = Num 45000, apiId = ''bitcoin''\<rparr>),
      (''eth'', \<lparr>name = ''Ethereum'', symbol = ''ETH'', iso20022 = False, color = ''#627eea'',
                basePrice = Num 2500, apiId = ''ethereum''\<rparr>),
      (''sol'', \<lparr>name = ''Solana'', symbol = ''SOL'', iso20022 = False, color = ''#9945ff'',
                basePrice = Num 95, apiId = ''solana''\<rparr>)]"

record model_config =
  hiddenUnits :: nat
  epochs :: nat
  learningRate :: real

text \<open>\<open>MODEL_CONFIG[modelType]\<close> is the pair of its \<open>standard\<close> and \<open>iso20022\<close> entries.\<close>

definition MODEL_CONFIG :: "string \<rightharpoonup> model_config \<times> model_config" where
  "MODEL_CONFIG = map_of
     [(''neural'', (\<lparr>hiddenUnits = 32, epochs = 100, learningRate = 1 / 1000\<rparr>,
                    \<lparr>hiddenUnits = 64, epochs = 150, learningRate = 8 / 10000\<rparr>)),
      (''deep'', (\<lparr>hiddenUnits = 64, epochs = 120, learningRate = 8 / 10000\<rparr>,
                  \<lparr>hiddenUnits = 96, epochs = 180, learningRate = 6 / 10000\<rparr>)),
      (''lstm'', (\<lparr>hiddenUnits = 48, epochs = 130, learningRate = 9 / 10000\<rparr>,
                  \<lparr>hiddenUnits = 72, epochs = 200, learningRate = 7 / 10000\<rparr>))]"

record data_config =
  syntheticDataPoints :: nat
  trainTestSplit :: jsnum
  validationSplit :: jsnum
  batchSize :: nat
  rsiPeriod :: nat

definition DATA_CONFIG :: data_config where
  "DATA_CONFIG = \<lparr>syntheticDataPoints = 100, trainTestSplit = Num (8 / 10),
     validationSplit = Num (2 / 10), batchSize = 16, rsiPeriod = 14\<rparr>"

section \<open>DataProcessor: state\<close>

text \<open>
  One observation of \<open>rawData\<close>, one entry of \<open>processedData\<close> (its fields \<open>price\<close>
  and \<open>date\<close> are \<open>fv_price\<close> and \<open>fv_date\<close> here), and the scaler. A date is its
  time value in milliseconds.
\<close>

record observation =
  date :: int
  price :: jsnum
  volume :: jsnum
  source :: string

record feature_vector =
  features :: "jsnum list"
  target :: jsnum
  fv_price :: jsnum
  fv_date :: int

record Scaler =
  means :: "jsnum list"
  stds :: "jsnum list"

text \<open>
  The processor of the real-data variant has the three fields of \<open>DataProcessor\<close>; the
  optimized variant (\<open>src/js/dataProcessor.js\<close>) adds the \<open>cache\<close>, a \<open>Map\<close> from
  the key \<open>processed_<k>\<close> to a processed set. A key is modelled by its number \<open>k\<close>.
\<close>

record DataProcessor =
  rawData :: "observation list"
  processedData :: "feature_vector list"
  scaler :: "Scaler option"

record CachedDataProcessor = DataProcessor +
  cache :: "jsnum \<rightharpoonup> feature_vector list"

section \<open>DataProcessor: indicators of the real-data variant\<close>

text \<open>An array length used as a number.\<close>

definition num_length :: "'a list \<Rightarrow> jsnum" where
  "num_length xs = Num (real (length xs))"

definition calculateMA :: "jsnum list \<Rightarrow> nat \<Rightarrow> nat \<Rightarrow> jsnum" where
  "calculateMA prices index period =
     (let start = max 0 (int index - int period + 1);
          slice = js_slice prices start (int index + 1)
      in js_sum slice / num_length slice)"

definition calculateMomentum :: "jsnum list \<Rightarrow> nat \<Rightarrow> jsnum" where
  "calculateMomentum prices index =
     (if 0 < index then num_at prices index / num_at prices (index - 1) - Num 1 else Num 0)"

definition calculateVolatility_at :: "jsnum list \<Rightarrow> nat \<Rightarrow> nat \<Rightarrow> jsnum" where
  \<comment> \<open>\<open>calculateVolatility(prices, index, period)\<close>\<close>
  "calculateVolatility_at prices index period =
     (let start = max 0 (int index - int period + 1);
          slice = js_slice prices start (int index + 1)
      in if length slice < 2 then Num 0
         else let mean = js_sum slice / num_length slice;
                  variance = foldl (\<lambda>sum p. sum + js_pow2 (p - mean)) (Num 0) slice
                               / num_length slice
              in js_sqrt variance)"

definition calculateVolumeRatio_at :: "jsnum list \<Rightarrow> nat \<Rightarrow> nat \<Rightarrow> jsnum" where
  \<comment> \<open>\<open>calculateVolumeRatio(volumes, index, period)\<close>\<close>
  "calculateVolumeRatio_at volumes index period =
     (let start = max 0 (int index - int period + 1);
          slice = js_slice volumes start (int index + 1);
          avgVolume = js_sum slice / num_length slice
      in if js_eq avgVolume (Num 0) then Num 1 else num_at volumes index / avgVolume)"

text \<open>
  \<open>calculateRSI(prices, index, period)\<close>: the changes of the last \<open>period\<close> steps, the
  gains and the losses among them, each summed and divided by \<open>period\<close>.
\<close>

definition calculateRSI :: "jsnum list \<Rightarrow> nat \<Rightarrow> nat \<Rightarrow> jsnum" where
  "calculateRSI prices index period =
     (if index < period then Num 50
      else
        let changes = map (\<lambda>i. num_at prices i - num_at prices (i - 1))
                        (filter (\<lambda>i. 0 < i) [index + 1 - period..<index + 1]);
            gains = filter (\<lambda>change. js_gt change (Num 0)) changes;
            losses = map abs (filter (\<lambda>change. js_lt change (Num 0)) changes);
            avgGain = (if 0 < length gains then js_sum gains / Num (real period) else Num 0);
            avgLoss = (if 0 < length losses then js_sum losses / Num (real period) else Num 0)
        in if js_eq avgLoss (Num 0) then Num 100
           else let rs = avgGain / avgLoss
                in Num 100 - Num 100 / (Num 1 + rs))"

section \<open>DataProcessor: normalization, split and latest features\<close>

text \<open>
  \<open>normalizeFeatures\<close>, \<open>splitData\<close> and \<open>getLatestFeatures\<close> have the same text in
  the real-data and in the optimized variant; each is one definition on both states.
\<close>

definition normalizeFeatures :: "'a DataProcessor_scheme \<Rightarrow> 'a DataProcessor_scheme" where
  "normalizeFeatures st =
     (if length (processedData st) = 0 then st
      else
        let pd = processedData st;
            featureCount = length (features (hd pd));
            mean_of = (\<lambda>i. foldl (\<lambda>sum item. sum + num_at (features item) i) (Num 0) pd
                             / num_length pd);
            means_v = map mean_of [0..<featureCount];
            std_of = (\<lambda>i.
               let variance = foldl (\<lambda>sum item.
                                 sum + js_pow2 (num_at (features item) i - num_at means_v i))
                               (Num 0) pd / num_length pd
               in js_or (js_sqrt variance) (Num 1));
            stds_v = map std_of [0..<featureCount];
            normalize = (\<lambda>item. item\<lparr>features :=
               fold (\<lambda>i fs. js_set fs i ((num_at fs i - num_at means_v i) / num_at stds_v i))
                 [0..<featureCount] (features item)\<rparr>)
        in st\<lparr>processedData := map normalize pd,
               scaler := Some \<lparr>means = means_v, stds = stds_v\<rparr>\<rparr>)"

definition splitData ::
  "data_config \<Rightarrow> 'a DataProcessor_scheme \<Rightarrow> feature_vector list \<times> feature_vector list" where
  "splitData cfg st =
     (let splitIndex = js_floor (num_length (processedData st) * trainTestSplit cfg)
      in (slice_to (processedData st) splitIndex, slice_from (processedData st) splitIndex))"

text \<open>
  \<open>getLatestFeatures\<close> returns \<open>null\<close> (\<open>None\<close>) or the features of the last entry. The
  read \<open>processedData[length - 1]\<close> is written with its failure: on \<open>undefined\<close> the
  property read \<open>.features\<close> would raise.
\<close>

definition js_index :: "'a list \<Rightarrow> int \<Rightarrow> 'a option" where
  "js_index xs i = (if 0 \<le> i \<and> i < int (length xs) then Some (xs ! nat i) else None)"

definition getLatestFeatures :: "'a DataProcessor_scheme \<Rightarrow> js_error + jsnum list option" where
  "getLatestFeatures st =
     (if 0 < length (processedData st)
      then (case js_index (processedData st) (int (length (processedData st)) - 1) of
              None \<Rightarrow> Inl TypeError
            | Some item \<Rightarrow> Inr (Some (features item)))
      else Inr None)"

section \<open>DataProcessor: the real-data variant\<close>

text \<open>
  The loop of \<open>processFeatures\<close> runs over \<open>i = 14, ..., length - 2\<close>; every read of
  \<open>rawData[i]\<close> and of \<open>prices[i + 1]\<close> in it is inside the array.
\<close>

definition real_features :: "observation list \<Rightarrow> nat \<Rightarrow> feature_vector" where
  "real_features raw i =
     (let prices = map price raw; volumes = map volume raw
      in \<lparr>features =
            [calculateMA prices i 5,
             calculateMA prices i 10,
             calculateMomentum prices i,
             calculateVolatility_at prices i 10,
             calculateVolumeRatio_at volumes i 10,
             calculateRSI prices i 14],
          target = num_at prices (i + 1),
          fv_price = num_at prices i,
          fv_date = date (raw ! i)\<rparr>)"

definition processFeatures_real :: "DataProcessor \<Rightarrow> js_error + DataProcessor" where
  "processFeatures_real st =
     (if length (rawData st) < 20
      then Inl (Error ''Insufficient data for feature processing'')
      else Inr (normalizeFeatures
             (st\<lparr>processedData :=
                   map (real_features (rawData st)) [14..<length (rawData st) - 1]\<rparr>)))"

section \<open>DataProcessor: the optimized variant\<close>

text \<open>
  \<open>calculateMovingAverageArray\<close>: \<open>new Array(length)\<close> is filled by two loops that share
  the running \<open>sum\<close>; between them they write every index. Each loop is a fold over its
  indices, with \<open>(sum, result)\<close> as its state.
\<close>

definition ma_initial :: "jsnum list \<Rightarrow> nat \<Rightarrow> jsnum \<times> jsnum list" where
  \<comment> \<open>the loop \<open>for (i = 0; i < Math.min(window, prices.length); i++)\<close>\<close>
  "ma_initial prices window =
     fold (\<lambda>i (sum, result).
             let sum' = sum + num_at prices i
             in (sum', js_set result i (sum' / Num (real (i + 1)))))
       [0..<min window (length prices)] (Num 0, replicate (length prices) NaN)"

definition ma_rolling :: "jsnum list \<Rightarrow> nat \<Rightarrow> jsnum \<times> jsnum list \<Rightarrow> jsnum \<times> jsnum list" where
  \<comment> \<open>the loop \<open>for (i = window; i < prices.length; i++)\<close>\<close>
  "ma_rolling prices window =
     fold (\<lambda>i (sum, result).
             let sum' = sum + num_at prices i - num_at prices (i - window)
             in (sum', js_set result i (sum' / Num (real window))))
       [window..<length prices]"

definition calculateMovingAverageArray :: "jsnum list \<Rightarrow> nat \<Rightarrow> jsnum list" where
  "calculateMovingAverageArray prices window =
     snd (ma_rolling prices window (ma_initial prices window))"

text \<open>
  \<open>calculateRSIArray\<close>: the first loop sums the gains and losses of the steps
  \<open>1, ..., period\<close>, with \<open>(avgGain, avgLoss)\<close> as its state; the second one smooths
  them from index \<open>period\<close> on and writes the result.
\<close>

definition rsi_initial :: "jsnum list \<Rightarrow> nat \<Rightarrow> jsnum \<times> jsnum" where
  \<comment> \<open>the loop \<open>for (i = 1; i <= period; i++)\<close>\<close>
  "rsi_initial prices period =
     fold (\<lambda>i (avgGain, avgLoss).
             let change = num_at prices i - num_at prices (i - 1)
             in if js_gt change (Num 0) then (avgGain + change, avgLoss)
                else (avgGain, avgLoss + \<bar>change\<bar>))
       [1..<period + 1] (Num 0, Num 0)"

definition rsi_rolling ::
  "jsnum list \<Rightarrow> nat \<Rightarrow> jsnum \<times> jsnum \<times> jsnum list \<Rightarrow> jsnum \<times> jsnum \<times> jsnum list" where
  \<comment> \<open>the loop \<open>for (i = period; i < prices.length; i++)\<close>\<close>
  "rsi_rolling prices period =
     fold (\<lambda>i (avgGain, avgLoss, result).
             let change = num_at prices i - num_at prices (i - 1);
                 gain = (if js_gt change (Num 0) then change else Num 0);
                 loss = (if js_lt change (Num 0) then \<bar>change\<bar> else Num 0);
                 avgGain' = (avgGain * Num (real period - 1) + gain) / Num (real period);
                 avgLoss' = (avgLoss * Num (real period - 1) + loss) / Num (real period);
                 rs = (if js_eq avgLoss' (Num 0) then Num 100 else avgGain' / avgLoss')
             in (avgGain', avgLoss', js_set result i (Num 100 - Num 100 / (Num 1 + rs))))
       [period..<length prices]"

definition calculateRSIArray :: "jsnum list \<Rightarrow> nat \<Rightarrow> jsnum list" where
  "calculateRSIArray prices period =
     (let result = replicate (length prices) (Num 50)
      in if length prices < period + 1 then result
         else
           let totals = rsi_initial prices period;
               avgGain = fst totals / Num (real period);
               avgLoss = snd totals / Num (real period)
           in snd (snd (rsi_rolling prices period (avgGain, avgLoss, result))))"

definition calculateVolatility :: "jsnum list \<Rightarrow> jsnum" where
  "calculateVolatility prices =
     (if length prices < 2 then Num 0
      else let mean = js_sum prices / num_length prices;
               variance = foldl (\<lambda>sum p. sum + js_pow2 (p - mean)) (Num 0) prices
                            / num_length prices
           in js_sqrt variance)"

definition calculateVolumeRatio :: "jsnum list \<Rightarrow> nat \<Rightarrow> jsnum" where
  "calculateVolumeRatio volumes index =
     (let start = max 0 (int index - 9);
          recentVolumes = js_slice volumes start (int index + 1);
          avgVolume = js_sum recentVolumes / num_length recentVolumes
      in if js_eq avgVolume (Num 0) then Num 1 else num_at volumes index / avgVolume)"

text \<open>
  \<open>generateCacheKey\<close>: the number \<open>k\<close> of the key \<open>processed_<k>\<close>, the rounded
  thousandfold of the sum of \<open>price * (i + 1)\<close> over the observations.
\<close>

definition generateCacheKey :: "'a DataProcessor_scheme \<Rightarrow> jsnum" where
  "generateCacheKey st =
     (let priceHash = fold (\<lambda>i hash. hash + price (rawData st ! i) * Num (real (i + 1)))
                        [0..<length (rawData st)] (Num 0)
      in js_round (priceHash * Num 1000))"

text \<open>
  One pass of the loop of \<open>processFeatures\<close>: the entry for index \<open>i\<close>, from the
  arrays computed before the loop.
\<close>

definition opt_features ::
  "observation list \<Rightarrow> jsnum list \<Rightarrow> jsnum list \<Rightarrow> jsnum list \<Rightarrow> jsnum list \<Rightarrow> jsnum list
     \<Rightarrow> nat \<Rightarrow> feature_vector" where
  "opt_features raw prices volumes ma5Array ma10Array rsiArray i =
     \<lparr>features =
        [num_at ma5Array i,
         num_at ma10Array i,
         calculateMomentum prices i,
         calculateVolatility (js_slice prices (max 0 (int i - 9)) (int i + 1)),
         calculateVolumeRatio volumes i,
         num_at rsiArray i],
      target = num_at prices (i + 1),
      fv_price = num_at prices i,
      fv_date = date (raw ! i)\<rparr>"

definition opt_vectors :: "observation list \<Rightarrow> feature_vector list" where
  "opt_vectors raw =
     (let prices = map price raw;
          volumes = map volume raw;
          ma5Array = calculateMovingAverageArray prices 5;
          ma10Array = calculateMovingAverageArray prices 10;
          rsiArray = calculateRSIArray prices 14
      in map (opt_features raw prices volumes ma5Array ma10Array rsiArray)
           [10..<length raw - 1])"

text \<open>
  \<open>processFeatures\<close> of the optimized variant: a cached processed set is returned as it
  is; otherwise the vectors of \<open>i = 10, ..., length - 2\<close> are computed, normalized and
  cached.
\<close>

definition processFeatures_opt :: "CachedDataProcessor \<Rightarrow> js_error + CachedDataProcessor" where
  "processFeatures_opt st =
     (if length (rawData st) < 20
      then Inl (Error ''Insufficient data for feature processing'')
      else
        let cacheKey = generateCacheKey st
        in case cache st cacheKey of
             Some cached \<Rightarrow> Inr (st\<lparr>processedData := cached\<rparr>)
           | None \<Rightarrow>
               let st' = normalizeFeatures (st\<lparr>processedData := opt_vectors (rawData st)\<rparr>)
               in Inr (st'\<lparr>cache := (cache st')(cacheKey \<mapsto> processedData st')\<rparr>))"

text \<open>The values an index may take: the finite numbers from 0 to 100.\<close>

definition rsi_value :: "jsnum \<Rightarrow> bool" where
  "rsi_value c = (\<exists>r. c = Num r \<and> 0 \<le> r \<and> r \<le> 100)"

section \<open>DataProcessor: the split with a ratio argument\<close>

text \<open>
  \<open>splitData(trainRatio = 0.8)\<close> of the variant with the advanced indicators
  (\<open>src/js/main.js\<close>) first runs \<open>processFeatures\<close> when the processed set is empty. That
  \<open>processFeatures\<close> draws random numbers and reads the clock, so the state of this
  variant is left abstract: \<open>processFeatures\<close> is any function on it and \<open>processed\<close>
  reads its field \<open>processedData\<close>. The result is the state and the two partitions.
\<close>

definition splitData_ratio ::
  "('s \<Rightarrow> 's) \<Rightarrow> ('s \<Rightarrow> 'v list) \<Rightarrow> jsnum \<Rightarrow> 's \<Rightarrow> 's \<times> 'v list \<times> 'v list" where
  "splitData_ratio processFeatures processed trainRatio st =
     (let st' = (if length (processed st) = 0 then processFeatures st else st);
          splitIndex = js_floor (num_length (processed st') * trainRatio)
      in (st', slice_to (processed st') splitIndex, slice_from (processed st') splitIndex))"

section \<open>ModelBuilder\<close>

text \<open>
  The tensor library is the store \<open>tf\<close>: the models constructed by \<open>tf.sequential\<close> and
  not yet disposed, each with its layers and, once compiled, its learning rate. A model is
  named by its reference.
\<close>

datatype layer =
    Dense nat string
  | Dropout real
  | BatchNormalization
  | Reshape "nat list"
  | Lstm nat real real

record tf_model =
  layers :: "layer list"
  compiled :: "real option"

record tf =
  models :: "nat \<rightharpoonup> tf_model"
  next_ref :: nat

definition tf_sequential :: "layer list \<Rightarrow> tf \<Rightarrow> nat \<times> tf" where
  "tf_sequential ls t =
     (next_ref t,
      t\<lparr>models := (models t)(next_ref t \<mapsto> \<lparr>layers = ls, compiled = None\<rparr>),
        next_ref := Suc (next_ref t)\<rparr>)"

definition tf_compile :: "nat \<Rightarrow> real \<Rightarrow> tf \<Rightarrow> tf" where
  "tf_compile r lr t =
     (case models t r of
        None \<Rightarrow> t
      | Some m \<Rightarrow> t\<lparr>models := (models t)(r \<mapsto> m\<lparr>compiled := Some lr\<rparr>)\<rparr>)"

definition tf_dispose :: "nat \<Rightarrow> tf \<Rightarrow> tf" where
  "tf_dispose r t = t\<lparr>models := (models t)(r := None)\<rparr>"

record ModelBuilder =
  model :: "nat option"
  trainingHistory :: "jsnum list option"

definition compileModel :: "real \<Rightarrow> tf \<times> ModelBuilder \<Rightarrow> tf \<times> ModelBuilder" where
  "compileModel lr s =
     (case s of (t, mb) \<Rightarrow>
        (case model mb of None \<Rightarrow> (t, mb) | Some r \<Rightarrow> (tf_compile r lr t, mb)))"

definition build_with :: "layer list \<Rightarrow> real \<Rightarrow> tf \<times> ModelBuilder \<Rightarrow> tf \<times> ModelBuilder" where
  \<comment> \<open>\<open>this.model = tf.sequential({layers}); this.compileModel(learningRate)\<close>\<close>
  "build_with ls lr s =
     (case s of (t, mb) \<Rightarrow>
        let (r, t') = tf_sequential ls t
        in compileModel lr (t', mb\<lparr>model := Some r\<rparr>))"

definition buildNeuralNetwork :: "model_config \<Rightarrow> tf \<times> ModelBuilder \<Rightarrow> tf \<times> ModelBuilder" where
  "buildNeuralNetwork config =
     build_with
       [Dense (hiddenUnits config) ''relu'', Dropout (2 / 10),
        Dense (hiddenUnits config div 2) ''relu'', Dense 1 ''linear'']
       (learningRate config)"

definition buildDeepNetwork :: "model_config \<Rightarrow> tf \<times> ModelBuilder \<Rightarrow> tf \<times> ModelBuilder" where
  "buildDeepNetwork config =
     build_with
       [Dense (hiddenUnits config * 2) ''relu'', BatchNormalization, Dropout (3 / 10),
        Dense (hiddenUnits config) ''relu'', BatchNormalization, Dropout (2 / 10),
        Dense (hiddenUnits config div 2) ''relu'', Dropout (1 / 10), Dense 1 ''linear'']
       (learningRate config)"

definition buildLSTMNetwork :: "model_config \<Rightarrow> tf \<times> ModelBuilder \<Rightarrow> tf \<times> ModelBuilder" where
  "buildLSTMNetwork config =
     build_with
       [Reshape [6, 1], Lstm (hiddenUnits config) (2 / 10) (2 / 10),
        Dense (hiddenUnits config div 2) ''relu'', Dropout (2 / 10), Dense 1 ''linear'']
       (learningRate config)"

text \<open>
  A property read \<open>CONFIG[key]\<close> finds the own keys of the configuration object and the
  keys every object inherits from \<open>Object.prototype\<close>; an inherited one yields a function
  or an object that has none of the configuration's fields.
\<close>

definition object_prototype_keys :: "string list" where
  "object_prototype_keys =
     [''constructor'', ''__defineGetter__'', ''__defineSetter__'', ''hasOwnProperty'',
      ''__lookupGetter__'', ''__lookupSetter__'', ''isPrototypeOf'', ''propertyIsEnumerable'',
      ''toString'', ''valueOf'', ''__proto__'', ''toLocaleString'']"

text \<open>
  \<open>buildModel\<close>: a crypto key or a model type that is in neither the configuration nor
  \<open>Object.prototype\<close> makes the property read on \<open>undefined\<close> raise before the \<open>switch\<close>
  is reached. An inherited crypto key has no \<open>iso20022\<close>, so the standard entry is taken;
  an inherited model type gives the configuration \<open>undefined\<close> and reaches the default
  case of the \<open>switch\<close>.
\<close>

definition buildModel ::
  "string \<Rightarrow> string \<Rightarrow> tf \<times> ModelBuilder \<Rightarrow> js_error + tf \<times> ModelBuilder" where
  "buildModel modelType cryptoKey s =
     (case (if cryptoKey \<in> set object_prototype_keys then Some False
            else map_option iso20022 (CRYPTO_CONFIG cryptoKey)) of
        None \<Rightarrow> Inl TypeError
      | Some is_iso20022 \<Rightarrow>
          if modelType \<in> set object_prototype_keys
          then Inl (Error (''Unknown model type: '' @ modelType))
          else
            (case MODEL_CONFIG modelType of
               None \<Rightarrow> Inl TypeError
             | Some (standard, enhanced) \<Rightarrow>
                 let config = (if is_iso20022 then enhanced else standard)
                 in if modelType = ''neural'' then Inr (buildNeuralNetwork config s)
                    else if modelType = ''deep'' then Inr (buildDeepNetwork config s)
                    else if modelType = ''lstm'' then Inr (buildLSTMNetwork config s)
                    else Inl (Error (''Unknown model type: '' @ modelType))))"

definition dispose :: "tf \<times> ModelBuilder \<Rightarrow> tf \<times> ModelBuilder" where
  "dispose s =
     (case s of (t, mb) \<Rightarrow>
        (case model mb of
           Some r \<Rightarrow> (tf_dispose r t, mb\<lparr>model := None, trainingHistory := None\<rparr>)
         | None \<Rightarrow> (t, mb\<lparr>trainingHistory := None\<rparr>)))"

text \<open>
  \<open>evaluateModel\<close>: \<open>predict m testX\<close> is the data of \<open>this.model.predict(testX)\<close>, or
  the message of the error the library raises; \<open>actualArray\<close> is the data of \<open>testY\<close>.
\<close>

definition evaluateModel ::
  "ModelBuilder \<Rightarrow> (nat \<Rightarrow> 'x \<Rightarrow> string + jsnum list) \<Rightarrow> 'x \<Rightarrow> jsnum list \<Rightarrow> js_error + Metrics" where
  "evaluateModel mb predict testX actualArray =
     (case model mb of
        None \<Rightarrow> Inl (Error ''No model available for evaluation'')
      | Some m \<Rightarrow>
          (case predict m testX of
             Inl msg \<Rightarrow> Inl (Error (''Model evaluation failed: '' @ msg))
           | Inr predArray \<Rightarrow> Inr (calculateMetrics predArray actualArray)))"

section \<open>MLPlatform: the split step of training\<close>

text \<open>
  \<open>trainModel\<close> splits the processed data and raises when a partition is too small
  (\<open>src/js/main.js\<close>, the split and the check after it).
\<close>

definition trainModel_split ::
  "data_config \<Rightarrow> 'a DataProcessor_scheme \<Rightarrow> js_error + feature_vector list \<times> feature_vector list" where
  "trainModel_split cfg dataProcessor =
     (let (train, test) = splitData cfg dataProcessor
      in if length train < 10 \<or> length test < 5
         then Inl (Error ''Insufficient data for training. Need at least 15 data points.'')
         else Inr (train, test))"

section \<open>Example inputs\<close>

text \<open>
  A processor of the optimized variant as its constructor leaves it, holding a raw series,
  and two series of 20 daily observations: one of constant price 1, and one that differs
  from it in the price 2 at index 18 only.
\<close>

definition fresh :: "observation list \<Rightarrow> CachedDataProcessor" where
  "fresh raw = \<lparr>rawData = raw, processedData = [], scaler = None, cache = Map.empty\<rparr>"

definition flat_series :: "observation list" where
  "flat_series =
     map (\<lambda>k. \<lparr>date = int k, price = Num 1, volume = Num 1, source = ''example''\<rparr>) [0..<20]"

definition step_series :: "observation list" where
  "step_series =
     map (\<lambda>k. \<lparr>date = int k, price = Num (if k = 18 then 2 else 1), volume = Num 1,
                source = ''example''\<rparr>) [0..<20]"

section \<open>Evaluation metrics\<close>

lemma js_sum_Num: "foldl (+) (Num a) (map Num xs) = Num (a + sum_list xs)"
  by (induction xs arbitrary: a) (simp_all add: add.assoc)

lemma js_sum_map_Num: "js_sum (map Num xs) = Num (sum_list xs)"
  by (simp add: js_sum_def js_sum_Num)

lemma metrics_fold_Num:
  assumes "n \<le> length ps" "n \<le> length as"
  shows "fold (metrics_step (map Num ps) (map Num as) (Num m)) [0..<n] (Num 0, Num 0, Num 0) =
     (Num (\<Sum>i<n. \<bar>ps ! i - as ! i\<bar>), Num (\<Sum>i<n. (ps ! i - as ! i)\<^sup>2),
      Num (\<Sum>i<n. (as ! i - m)\<^sup>2))"
  using assms
  by (induction n) (simp_all add: metrics_step_def num_at_def minus_jsnum_def)

lemma calculateMetrics_finite:
  fixes ps as :: "real list"
  assumes len: "length ps = length as" and ne: "ps \<noteq> []"
  defines "n \<equiv> length ps"
  defines "mean \<equiv> sum_list as / real n"
  defines "MAE \<equiv> (\<Sum>i<n. \<bar>ps ! i - as ! i\<bar>) / real n"
  defines "MSE \<equiv> (\<Sum>i<n. (ps ! i - as ! i)\<^sup>2) / real n"
  defines "SS \<equiv> (\<Sum>i<n. (as ! i - mean)\<^sup>2)"
  shows "calculateMetrics (map Num ps) (map Num as) =
    \<lparr>mae = Num MAE, mse = Num MSE, rmse = Num (sqrt MSE),
     r2 = Num (if SS = 0 then 0 else 1 - (MSE * real n) / SS),
     accuracy = (if mean = 0 then (if MAE = 0 then NaN else Num 0)
                 else Num (max 0 ((1 - MAE / mean) * 100))),
     sampleSize = n\<rparr>"
proof -
  have n0: "real n \<noteq> 0" using ne by (simp add: n_def)
  have mean_eq: "js_sum (map Num as) / Num (real n) = Num mean"
    using n0 by (simp add: js_sum_map_Num mean_def)
  have fold_eq:
    "fold (metrics_step (map Num ps) (map Num as) (Num mean)) [0..<n] (Num 0, Num 0, Num 0) =
       (Num (MAE * real n), Num (MSE * real n), Num SS)"
    using metrics_fold_Num[of n ps as mean] len n0 by (simp add: n_def MAE_def MSE_def SS_def)
  have MAE0: "0 \<le> MAE" by (simp add: MAE_def sum_nonneg)
  have MSE0: "0 \<le> MSE" by (simp add: MSE_def sum_nonneg)
  show ?thesis
    unfolding calculateMetrics_def Let_def
    using n0 MAE0 MSE0
    by (simp add: mean_eq fold_eq n_def[symmetric] js_eq_def minus_jsnum_def)
qed

text \<open>
  Claim C4. For prediction and actual sequences of finite numbers, of equal length
  \<open>n > 0\<close>, \<open>calculateMetrics\<close> returns MAE = mean(|p - a|), MSE = mean((p - a)^2),
  RMSE = sqrt MSE, R2 = 1 - MSE n / SS with SS the sum of (a - mean a)^2, and R2 = 0 when
  SS = 0, accuracy = max(0, (1 - MAE / mean a) 100) and the sample size \<open>n\<close>. The
  accuracy formula is the JavaScript one where mean a = 0: the division by zero gives
  \<open>-Infinity\<close> inside the maximum, hence 0, unless MAE = 0 too, which gives \<open>NaN\<close>. The
  result is a function of the two sequences.
\<close>

theorem calculateMetrics_formulas:
  fixes ps as :: "real list"
  assumes "length ps = length as" and "ps \<noteq> []"
  shows "let n = length ps;
             mean = sum_list as / real n;
             MAE = (\<Sum>i<n. \<bar>ps ! i - as ! i\<bar>) / real n;
             MSE = (\<Sum>i<n. (ps ! i - as ! i)\<^sup>2) / real n;
             SS = (\<Sum>i<n. (as ! i - mean)\<^sup>2)
         in calculateMetrics (map Num ps) (map Num as) =
              \<lparr>mae = Num MAE, mse = Num MSE, rmse = Num (sqrt MSE),
               r2 = Num (if SS = 0 then 0 else 1 - (MSE * real n) / SS),
               accuracy = (if mean = 0 then (if MAE = 0 then NaN else Num 0)
                           else Num (max 0 ((1 - MAE / mean) * 100))),
               sampleSize = n\<rparr>"
  using calculateMetrics_finite[OF assms] by (simp add: Let_def)

text \<open>The example of the specification: \<open>evaluate([1,2,3],[1,2,4])\<close>.\<close>

theorem calculateMetrics_example:
  "calculateMetrics [Num 1, Num 2, Num 3] [Num 1, Num 2, Num 4] =
     \<lparr>mae = Num (1 / 3), mse = Num (1 / 3), rmse = Num (sqrt (1 / 3)),
      r2 = Num (11 / 14), accuracy = Num (600 / 7), sampleSize = 3\<rparr>"
  using calculateMetrics_formulas[of "[1, 2, 3]" "[1, 2, 4]"]
  by (simp add: Let_def eval_nat_numeral field_simps)

section \<open>Evaluation without validation\<close>

text \<open>
  Claim C7, as stated, fails: \<open>evaluateModel\<close> and \<open>calculateMetrics\<close> check neither the
  lengths nor emptiness. \<open>calculateMetrics\<close> on the empty sequences returns a Metrics
  value, whose fields are \<open>NaN\<close> but for \<open>r2\<close>; and when the model predicts 1 and 2 for a
  test set of two rows while only one actual value is given, \<open>evaluateModel\<close> returns a
  Metrics value too.
\<close>

theorem evaluate_empty_returns_metrics:
  "calculateMetrics [] [] =
     \<lparr>mae = NaN, mse = NaN, rmse = NaN, r2 = Num 0, accuracy = NaN, sampleSize = 0\<rparr> \<and>
   evaluateModel \<lparr>model = Some 0, trainingHistory = None\<rparr> (\<lambda>m x. Inr x)
       [Num 1, Num 2] [Num 1] =
     Inr \<lparr>mae = NaN, mse = NaN, rmse = NaN, r2 = NaN, accuracy = NaN, sampleSize = 2\<rparr>"
  by (simp add: evaluateModel_def calculateMetrics_def js_sum_def js_eq_def minus_jsnum_def
      metrics_step_def num_at_def upt_rec numeral_2_eq_2)

text \<open>
  Claim C7, amended. \<open>evaluateModel\<close> raises exactly when there is no model or the
  library's prediction raises; whenever a model is present and its prediction succeeds it
  returns the Metrics of \<open>calculateMetrics\<close>, for sequences of any lengths, and the sample
  size is the number of predictions. \<open>calculateMetrics\<close> itself returns for all
  sequences; on the empty ones its result has the sample size 0, \<open>r2 = 0\<close> and \<open>NaN\<close> in
  the other fields.
\<close>

theorem evaluateModel_no_validation:
  "(evaluateModel mb predict x ys = Inl e \<longleftrightarrow>
      (model mb = None \<and> e = Error ''No model available for evaluation'') \<or>
      (\<exists>m msg. model mb = Some m \<and> predict m x = Inl msg \<and>
         e = Error (''Model evaluation failed: '' @ msg))) \<and>
   (\<forall>m ps. model mb = Some m \<and> predict m x = Inr ps \<longrightarrow>
      evaluateModel mb predict x ys = Inr (calculateMetrics ps ys) \<and>
      sampleSize (calculateMetrics ps ys) = length ps) \<and>
   calculateMetrics [] [] =
     \<lparr>mae = NaN, mse = NaN, rmse = NaN, r2 = Num 0, accuracy = NaN, sampleSize = 0\<rparr>"
proof -
  have a: "(evaluateModel mb predict x ys = Inl e \<longleftrightarrow>
      (model mb = None \<and> e = Error ''No model available for evaluation'') \<or>
      (\<exists>m msg. model mb = Some m \<and> predict m x = Inl msg \<and>
         e = Error (''Model evaluation failed: '' @ msg))) \<and>
   (\<forall>m ps. model mb = Some m \<and> predict m x = Inr ps \<longrightarrow>
      evaluateModel mb predict x ys = Inr (calculateMetrics ps ys) \<and>
      sampleSize (calculateMetrics ps ys) = length ps)"
    by (auto simp add: evaluateModel_def calculateMetrics_def Let_def
        split: option.splits sum.splits prod.splits)
  have b: "calculateMetrics [] [] =
     \<lparr>mae = NaN, mse = NaN, rmse = NaN, r2 = Num 0, accuracy = NaN, sampleSize = 0\<rparr>"
    by (simp add: calculateMetrics_def js_sum_def js_eq_def minus_jsnum_def)
  from a b show ?thesis by blast
qed

theorem evaluateModel_no_validation_witness:
  "evaluateModel \<lparr>model = Some 0, trainingHistory = None\<rparr> (\<lambda>m x. Inr x) [Num 3] [] =
     Inr (calculateMetrics [Num 3] []) \<and>
   sampleSize (calculateMetrics [Num 3] []) = 1"
  using evaluateModel_no_validation
    [of "\<lparr>model = Some 0, trainingHistory = None\<rparr>" "\<lambda>m x. Inr x" "[Num 3]" "[]"]
  by simp

section \<open>The feature-processing threshold\<close>

lemma processFeatures_opt_Inr:
  "20 \<le> length (rawData st) \<Longrightarrow> \<exists>r. processFeatures_opt st = Inr r"
  by (simp add: processFeatures_opt_def Let_def split: option.splits)

text \<open>
  Claim C9. In the real-data and in the optimized variant, \<open>processFeatures\<close> raises the
  error \<open>Insufficient data for feature processing\<close> exactly when the raw series has fewer
  than 20 observations, and returns otherwise; 20 is below the 100 points of a series
  (\<open>syntheticDataPoints\<close>).
\<close>

theorem processFeatures_threshold:
  "(processFeatures_real st = Inl (Error ''Insufficient data for feature processing'')
      \<longleftrightarrow> length (rawData st) < 20) \<and>
   ((\<exists>r. processFeatures_real st = Inr r) \<longleftrightarrow> 20 \<le> length (rawData st)) \<and>
   (processFeatures_opt ct = Inl (Error ''Insufficient data for feature processing'')
      \<longleftrightarrow> length (rawData ct) < 20) \<and>
   ((\<exists>r. processFeatures_opt ct = Inr r) \<longleftrightarrow> 20 \<le> length (rawData ct)) \<and>
   20 < syntheticDataPoints DATA_CONFIG"
proof -
  have a: "processFeatures_real st = Inl (Error ''Insufficient data for feature processing'')
      \<longleftrightarrow> length (rawData st) < 20"
    by (simp add: processFeatures_real_def)
  have b: "(\<exists>r. processFeatures_real st = Inr r) \<longleftrightarrow> 20 \<le> length (rawData st)"
    by (auto simp add: processFeatures_real_def)
  have c: "processFeatures_opt ct = Inl (Error ''Insufficient data for feature processing'')
      \<longleftrightarrow> length (rawData ct) < 20"
    by (simp add: processFeatures_opt_def Let_def split: option.splits)
  have d: "(\<exists>r. processFeatures_opt ct = Inr r) \<longleftrightarrow> 20 \<le> length (rawData ct)"
    using processFeatures_opt_Inr[of ct] by (auto simp add: processFeatures_opt_def)
  have e: "20 < syntheticDataPoints DATA_CONFIG" by (simp add: DATA_CONFIG_def)
  from a b c d e show ?thesis by blast
qed

theorem processFeatures_threshold_witness:
  "processFeatures_real \<lparr>rawData = [], processedData = [], scaler = None\<rparr> =
     Inl (Error ''Insufficient data for feature processing'') \<and>
   processFeatures_opt \<lparr>rawData = [], processedData = [], scaler = None, cache = Map.empty\<rparr> =
     Inl (Error ''Insufficient data for feature processing'')"
  using processFeatures_threshold
    [of "\<lparr>rawData = [], processedData = [], scaler = None\<rparr>"
        "\<lparr>rawData = [], processedData = [], scaler = None, cache = Map.empty\<rparr>"]
  by simp

section \<open>Latest features\<close>

lemma getLatestFeatures_eq:
  "getLatestFeatures st =
     Inr (if processedData st = [] then None else Some (features (last (processedData st))))"
  by (cases "processedData st" rule: rev_cases)
    (simp_all add: getLatestFeatures_def js_index_def)

text \<open>
  Claim C10. \<open>getLatestFeatures\<close> never raises: it returns \<open>null\<close> when the processed set
  is empty and the features of its last entry otherwise.
\<close>

theorem getLatestFeatures_last:
  "getLatestFeatures st =
     Inr (if processedData st = [] then None else Some (features (last (processedData st))))"
  by (rule getLatestFeatures_eq)

theorem getLatestFeatures_last_witness:
  "getLatestFeatures \<lparr>rawData = [], processedData = [], scaler = None\<rparr> = Inr None \<and>
   getLatestFeatures \<lparr>rawData = [], processedData =
       [\<lparr>features = [Num 1], target = Num 2, fv_price = Num 3, fv_date = 0\<rparr>,
        \<lparr>features = [Num 4], target = Num 5, fv_price = Num 6, fv_date = 1\<rparr>],
     scaler = None\<rparr> = Inr (Some [Num 4])"
  using getLatestFeatures_last[of "\<lparr>rawData = [], processedData = [], scaler = None\<rparr>"]
    getLatestFeatures_last[of "\<lparr>rawData = [], processedData =
       [\<lparr>features = [Num 1], target = Num 2, fv_price = Num 3, fv_date = 0\<rparr>,
        \<lparr>features = [Num 4], target = Num 5, fv_price = Num 6, fv_date = 1\<rparr>],
     scaler = None\<rparr>"]
  by simp

section \<open>The train/test split\<close>

lemma slice_to_from: "slice_to xs k @ slice_from xs k = xs"
  by (simp add: slice_to_def slice_from_def)

lemma num_index_ratio:
  assumes "0 \<le> r" "r \<le> 1"
  shows "num_index n (js_floor (Num (real n) * Num r)) = nat \<lfloor>real n * r\<rfloor>"
proof -
  have "real n * r \<le> real n * 1" using assms by (intro mult_left_mono) simp_all
  then have "\<lfloor>real n * r\<rfloor> \<le> int n" by (simp add: floor_le_iff)
  moreover have "0 \<le> \<lfloor>real n * r\<rfloor>" using assms by simp
  ultimately have "nat \<lfloor>real n * r\<rfloor> \<le> n" "0 \<le> real n * r" by linarith+
  then show ?thesis by (simp add: rel_index_def)
qed

lemma splitData_append: "fst (splitData cfg st) @ snd (splitData cfg st) = processedData st"
  by (simp add: splitData_def Let_def slice_to_from)

lemma splitData_boundary:
  assumes "trainTestSplit cfg = Num r" "0 \<le> r" "r \<le> 1"
  shows "splitData cfg st =
     (take (nat \<lfloor>real (length (processedData st)) * r\<rfloor>) (processedData st),
      drop (nat \<lfloor>real (length (processedData st)) * r\<rfloor>) (processedData st))"
  using assms
  by (simp add: splitData_def Let_def slice_to_def slice_from_def num_length_def
      num_index_ratio del: js_floor.simps times_jsnum.simps)

lemma splitData_12:
  assumes "length (processedData st) = 12"
  shows "splitData DATA_CONFIG st = (take 9 (processedData st), drop 9 (processedData st))"
proof -
  have "nat \<lfloor>real 12 * (8 / 10)\<rfloor> = 9" by simp
  with splitData_boundary[of DATA_CONFIG "8/10" st] assms show ?thesis
    by (simp add: DATA_CONFIG_def)
qed

lemma num_index_floor:
  "num_index n (js_floor (Num (real n) * Num r)) = rel_index n \<lfloor>real n * r\<rfloor>"
  by simp

lemma splitData_ratio_nonempty:
  assumes "processed s \<noteq> []"
  shows "splitData_ratio pf processed ratio s =
     (s, slice_to (processed s) (js_floor (num_length (processed s) * ratio)),
         slice_from (processed s) (js_floor (num_length (processed s) * ratio)))"
  using assms by (simp add: splitData_ratio_def Let_def)

text \<open>
  Claim C5, as stated, fails for \<open>splitData(trainRatio)\<close> of \<open>src/js/main.js\<close>. On the
  empty vector list it splits the set that \<open>processFeatures\<close> produces, not the list it was
  given: with the ratio 0.8 and a refill of five vectors the partitions are four and one
  vectors, and with another refill, as another draw of the random numbers gives, the
  result on the same list and ratio is another one. And with the ratio -1/2 a list of
  four vectors is cut at index 2, counted from the end, while floor(4 (-1/2)) is -2.
\<close>

theorem split_refills_empty_set:
  "splitData_ratio (\<lambda>s. [1, 2, 3, 4, 5 :: nat]) (\<lambda>s. s) (Num (8 / 10)) [] =
     ([1, 2, 3, 4, 5], [1, 2, 3, 4], [5]) \<and>
   splitData_ratio (\<lambda>s. [7 :: nat]) (\<lambda>s. s) (Num (8 / 10)) [] = ([7], [], [7]) \<and>
   splitData_ratio (\<lambda>s. s) (\<lambda>s. s) (Num (- 1 / 2)) [1, 2, 3, 4 :: nat] =
     ([1, 2, 3, 4], [1, 2], [3, 4]) \<and>
   \<lfloor>real (length [1, 2, 3, 4 :: nat]) * (- 1 / 2)\<rfloor> = - 2"
  by (simp add: splitData_ratio_def Let_def slice_to_def slice_from_def num_length_def
      rel_index_def)

text \<open>
  Claim C5, amended. \<open>splitData\<close> of \<open>src/js/dataProcessor.js\<close> cuts the processed set in
  two parts that, concatenated in order, are the processed set again, for every ratio; for
  a ratio \<open>r\<close> between 0 and 1 the cut is at index floor(length r), and for any finite
  ratio at that index clamped to the list, a negative one counted from the end; the result
  depends on the ratio and the processed set only. \<open>splitData(trainRatio)\<close> of
  \<open>src/js/main.js\<close> does the same on the set it splits: on a non-empty processed set that
  is the given set, the state is unchanged and the result does not depend on
  \<open>processFeatures\<close>; on an empty one it is the set \<open>processFeatures\<close> produces.
\<close>

theorem split_boundary_reconstruction:
  "fst (splitData cfg st) @ snd (splitData cfg st) = processedData st \<and>
   (\<forall>r. trainTestSplit cfg = Num r \<and> 0 \<le> r \<and> r \<le> 1 \<longrightarrow>
      splitData cfg st =
        (take (nat \<lfloor>real (length (processedData st)) * r\<rfloor>) (processedData st),
         drop (nat \<lfloor>real (length (processedData st)) * r\<rfloor>) (processedData st))) \<and>
   (\<forall>cfg' st'. trainTestSplit cfg' = trainTestSplit cfg \<and> processedData st' = processedData st \<longrightarrow>
      splitData cfg' st' = splitData cfg st) \<and>
   (case splitData_ratio pf processed ratio s of (s', train, test) \<Rightarrow>
      train @ test = processed s' \<and>
      s' = (if processed s = [] then pf s else s) \<and>
      (\<forall>r. ratio = Num r \<and> 0 \<le> r \<and> r \<le> 1 \<longrightarrow>
         train = take (nat \<lfloor>real (length (processed s')) * r\<rfloor>) (processed s') \<and>
         test = drop (nat \<lfloor>real (length (processed s')) * r\<rfloor>) (processed s'))) \<and>
   (processed s \<noteq> [] \<longrightarrow>
      (\<forall>pf'. splitData_ratio pf' processed ratio s = splitData_ratio pf processed ratio s) \<and>
      (case splitData_ratio pf processed ratio s of (s', train, test) \<Rightarrow>
         s' = s \<and> train @ test = processed s)) \<and>
   (\<forall>r. trainTestSplit cfg = Num r \<longrightarrow>
      splitData cfg st =
        (take (rel_index (length (processedData st)) \<lfloor>real (length (processedData st)) * r\<rfloor>)
           (processedData st),
         drop (rel_index (length (processedData st)) \<lfloor>real (length (processedData st)) * r\<rfloor>)
           (processedData st))) \<and>
   (\<forall>r. ratio = Num r \<longrightarrow>
      (case splitData_ratio pf processed ratio s of (s', train, test) \<Rightarrow>
         train = take (rel_index (length (processed s')) \<lfloor>real (length (processed s')) * r\<rfloor>)
                   (processed s') \<and>
         test = drop (rel_index (length (processed s')) \<lfloor>real (length (processed s')) * r\<rfloor>)
                  (processed s')))"
proof -
  have a: "\<forall>cfg' st'. trainTestSplit cfg' = trainTestSplit cfg \<and> processedData st' = processedData st \<longrightarrow>
      splitData cfg' st' = splitData cfg st"
    by (simp add: splitData_def)
  have b: "case splitData_ratio pf processed ratio s of (s', train, test) \<Rightarrow>
      train @ test = processed s' \<and>
      s' = (if processed s = [] then pf s else s) \<and>
      (\<forall>r. ratio = Num r \<and> 0 \<le> r \<and> r \<le> 1 \<longrightarrow>
         train = take (nat \<lfloor>real (length (processed s')) * r\<rfloor>) (processed s') \<and>
         test = drop (nat \<lfloor>real (length (processed s')) * r\<rfloor>) (processed s'))"
    by (simp add: splitData_ratio_def Let_def slice_to_from slice_to_def slice_from_def
        num_length_def num_index_ratio del: js_floor.simps times_jsnum.simps)
  have c: "processed s \<noteq> [] \<longrightarrow>
      (\<forall>pf'. splitData_ratio pf' processed ratio s = splitData_ratio pf processed ratio s) \<and>
      (case splitData_ratio pf processed ratio s of (s', train, test) \<Rightarrow>
         s' = s \<and> train @ test = processed s)"
    by (simp add: splitData_ratio_nonempty slice_to_from)
  have d: "\<forall>r. trainTestSplit cfg = Num r \<longrightarrow>
      splitData cfg st =
        (take (rel_index (length (processedData st)) \<lfloor>real (length (processedData st)) * r\<rfloor>)
           (processedData st),
         drop (rel_index (length (processedData st)) \<lfloor>real (length (processedData st)) * r\<rfloor>)
           (processedData st))"
    by (simp add: splitData_def Let_def slice_to_def slice_from_def num_length_def
        num_index_floor del: js_floor.simps times_jsnum.simps num_index.simps)
  have e: "\<forall>r. ratio = Num r \<longrightarrow>
      (case splitData_ratio pf processed ratio s of (s', train, test) \<Rightarrow>
         train = take (rel_index (length (processed s')) \<lfloor>real (length (processed s')) * r\<rfloor>)
                   (processed s') \<and>
         test = drop (rel_index (length (processed s')) \<lfloor>real (length (processed s')) * r\<rfloor>)
                  (processed s'))"
    by (simp add: splitData_ratio_def Let_def slice_to_def slice_from_def num_length_def
        num_index_floor del: js_floor.simps times_jsnum.simps num_index.simps)
  show ?thesis using splitData_append splitData_boundary a b c d e by blast
qed

theorem split_boundary_reconstruction_witness:
  "splitData DATA_CONFIG
     \<lparr>rawData = [], processedData = map (\<lambda>k. \<lparr>features = [], target = Num (real k),
        fv_price = Num 0, fv_date = 0\<rparr>) [0..<5], scaler = None\<rparr> =
     (map (\<lambda>k. \<lparr>features = [], target = Num (real k), fv_price = Num 0, fv_date = 0\<rparr>) [0..<4],
      map (\<lambda>k. \<lparr>features = [], target = Num (real k), fv_price = Num 0, fv_date = 0\<rparr>) [4..<5]) \<and>
   splitData_ratio (\<lambda>xs. xs) (\<lambda>xs. xs) (Num (1 / 2)) [1, 2, 3, 4, 5 :: nat] =
     ([1, 2, 3, 4, 5], [1, 2], [3, 4, 5])"
proof -
  let ?st = "\<lparr>rawData = [], processedData = map (\<lambda>k. \<lparr>features = [], target = Num (real k),
        fv_price = Num 0, fv_date = 0\<rparr>) [0..<5], scaler = None\<rparr>"
  note T = split_boundary_reconstruction
    [where cfg = DATA_CONFIG and st = ?st
       and pf = "\<lambda>xs. xs" and processed = "\<lambda>xs. xs" and ratio = "Num (1 / 2)"
       and s = "[1, 2, 3, 4, 5 :: nat]"]
  have k1: "nat \<lfloor>real (length (processedData ?st)) * (8 / 10)\<rfloor> = 4" by simp
  have k2: "nat \<lfloor>real (length [1, 2, 3, 4, 5 :: nat]) * (1 / 2)\<rfloor> = 2" by simp
  have cfg: "trainTestSplit DATA_CONFIG = Num (8 / 10) \<and> (0::real) \<le> 8 / 10 \<and> (8 / 10 :: real) \<le> 1"
    by (simp add: DATA_CONFIG_def)
  have 1: "splitData DATA_CONFIG ?st = (take 4 (processedData ?st), drop 4 (processedData ?st))"
    using T[THEN conjunct2, THEN conjunct1, rule_format, OF cfg] unfolding k1 .
  obtain s' train test where
    sp: "splitData_ratio (\<lambda>xs. xs) (\<lambda>xs. xs) (Num (1 / 2)) [1, 2, 3, 4, 5 :: nat] = (s', train, test)"
    by (metis prod_cases3)
  have half: "Num (1 / 2) = Num (1 / 2) \<and> (0::real) \<le> 1 / 2 \<and> (1 / 2 :: real) \<le> 1" by simp
  from T[THEN conjunct2, THEN conjunct2, THEN conjunct2, THEN conjunct1] sp
  have s': "s' = [1, 2, 3, 4, 5]"
    and r: "\<forall>r. Num (1 / 2) = Num r \<and> 0 \<le> r \<and> r \<le> 1 \<longrightarrow>
         train = take (nat \<lfloor>real (length s') * r\<rfloor>) s' \<and>
         test = drop (nat \<lfloor>real (length s') * r\<rfloor>) s'"
    by simp_all
  from r[rule_format, OF half] have 2: "train = [1, 2]" "test = [3, 4, 5]"
    unfolding s' k2 by simp_all
  have 3: "take 4 (processedData ?st) =
      map (\<lambda>k. \<lparr>features = [], target = Num (real k), fv_price = Num 0, fv_date = 0\<rparr>) [0..<4]"
    "drop 4 (processedData ?st) =
      map (\<lambda>k. \<lparr>features = [], target = Num (real k), fv_price = Num 0, fv_date = 0\<rparr>) [4..<5]"
    by (simp_all add: take_map drop_map del: upt_Suc)
  show ?thesis unfolding 1 3 sp s' 2 by simp
qed

section \<open>The minimum partitions of training\<close>

text \<open>
  Claim C6. The split step of training raises its insufficient-data error exactly when
  the train partition has fewer than 10 vectors or the test partition fewer than 5, and
  returns the two partitions otherwise; a processed set of 12 vectors is split 9 to 3 by
  the configured ratio 0.8 and raises.
\<close>

theorem trainModel_split_fails_iff:
  "(trainModel_split cfg dp =
       Inl (Error ''Insufficient data for training. Need at least 15 data points.'')
      \<longleftrightarrow> length (fst (splitData cfg dp)) < 10 \<or> length (snd (splitData cfg dp)) < 5) \<and>
   (trainModel_split cfg dp = Inr (splitData cfg dp)
      \<longleftrightarrow> \<not> (length (fst (splitData cfg dp)) < 10 \<or> length (snd (splitData cfg dp)) < 5)) \<and>
   (length (processedData dp) = 12 \<longrightarrow>
      length (fst (splitData DATA_CONFIG dp)) = 9 \<and> length (snd (splitData DATA_CONFIG dp)) = 3 \<and>
      trainModel_split DATA_CONFIG dp =
        Inl (Error ''Insufficient data for training. Need at least 15 data points.''))"
  by (auto simp add: trainModel_split_def splitData_12 split: prod.splits)

theorem trainModel_split_fails_iff_witness:
  "trainModel_split DATA_CONFIG
     \<lparr>rawData = [], processedData = replicate 12 \<lparr>features = [], target = Num 0,
        fv_price = Num 0, fv_date = 0\<rparr>, scaler = None\<rparr> =
     Inl (Error ''Insufficient data for training. Need at least 15 data points.'')"
  using trainModel_split_fails_iff
    [of DATA_CONFIG "\<lparr>rawData = [], processedData = replicate 12 \<lparr>features = [], target = Num 0,
        fv_price = Num 0, fv_date = 0\<rparr>, scaler = None\<rparr>"]
  by simp

section \<open>Model ownership\<close>

lemma CRYPTO_CONFIG_xrp:
  "CRYPTO_CONFIG ''xrp'' = Some \<lparr>name = ''XRP'', symbol = ''XRP'', iso20022 = True,
     color = ''#00aae4'', basePrice = Num (65 / 100), apiId = ''ripple''\<rparr>"
  by (simp add: CRYPTO_CONFIG_def)

lemma MODEL_CONFIG_neural:
  "MODEL_CONFIG ''neural'' =
     Some (\<lparr>hiddenUnits = 32, epochs = 100, learningRate = 1 / 1000\<rparr>,
           \<lparr>hiddenUnits = 64, epochs = 150, learningRate = 8 / 10000\<rparr>)"
  by (simp add: MODEL_CONFIG_def)

lemma own_keys:
  "''xrp'' \<notin> set object_prototype_keys" "''neural'' \<notin> set object_prototype_keys"
  by (simp_all add: object_prototype_keys_def)

lemma buildModel_neural_xrp:
  "buildModel ''neural'' ''xrp'' s =
     Inr (buildNeuralNetwork \<lparr>hiddenUnits = 64, epochs = 150, learningRate = 8 / 10000\<rparr> s)"
  by (simp add: buildModel_def own_keys CRYPTO_CONFIG_xrp MODEL_CONFIG_neural)

lemma buildModel_keeps_models:
  assumes "buildModel modelType cryptoKey (t, mb) = Inr (t', mb')"
  shows "dom (models t') = insert (next_ref t) (dom (models t)) \<and> model mb' = Some (next_ref t)
     \<and> next_ref t' = Suc (next_ref t)"
  using assms
  by (auto simp add: buildModel_def buildNeuralNetwork_def buildDeepNetwork_def
      buildLSTMNetwork_def build_with_def compileModel_def tf_sequential_def tf_compile_def Let_def
      split: option.splits if_splits prod.splits)

text \<open>
  Claim C2 at two builds in a row. From a fresh builder, \<open>buildModel\<close> for the neural
  network of XRP, run twice, leaves the models 0 and 1 in the store with 1 the current
  one: the model 0 was never disposed. With \<open>dispose\<close> between the two builds, as on a
  change of the selection, only the model 1 is left.
\<close>

theorem buildModel_twice_keeps_first:
  "map_sum id (\<lambda>(t, mb). (dom (models t), model mb))
     (case buildModel ''neural'' ''xrp''
             (\<lparr>models = Map.empty, next_ref = 0\<rparr>, \<lparr>model = None, trainingHistory = None\<rparr>) of
        Inl e \<Rightarrow> Inl e
      | Inr s1 \<Rightarrow> buildModel ''neural'' ''xrp'' s1) = Inr ({0, 1}, Some 1) \<and>
   map_sum id (\<lambda>(t, mb). (dom (models t), model mb))
     (case buildModel ''neural'' ''xrp''
             (\<lparr>models = Map.empty, next_ref = 0\<rparr>, \<lparr>model = None, trainingHistory = None\<rparr>) of
        Inl e \<Rightarrow> Inl e
      | Inr s1 \<Rightarrow> buildModel ''neural'' ''xrp'' (dispose s1)) = Inr ({1}, Some 1)"
proof -
  obtain t1 mb1 where 1: "buildModel ''neural'' ''xrp''
       (\<lparr>models = Map.empty, next_ref = 0\<rparr>, \<lparr>model = None, trainingHistory = None\<rparr>) = Inr (t1, mb1)"
    by (simp add: buildModel_neural_xrp) (metis surj_pair)
  obtain t2 mb2 where 2: "buildModel ''neural'' ''xrp'' (t1, mb1) = Inr (t2, mb2)"
    by (simp add: buildModel_neural_xrp) (metis surj_pair)
  obtain t3 mb3 where 3: "buildModel ''neural'' ''xrp'' (dispose (t1, mb1)) = Inr (t3, mb3)"
    by (simp add: buildModel_neural_xrp) (metis surj_pair)
  note k1 = buildModel_keeps_models[OF 1]
  have d: "dispose (t1, mb1) = (tf_dispose 0 t1, mb1\<lparr>model := None, trainingHistory := None\<rparr>)"
    using k1 by (simp add: dispose_def)
  note k2 = buildModel_keeps_models[OF 2]
  note k3 = buildModel_keeps_models[OF 3[unfolded d]]
  have "dom (models t2) = {0, 1}" "model mb2 = Some 1"
    using k1 k2 by auto
  moreover have "dom (models t3) = {1}" "model mb3 = Some 1"
    using k1 k3 by (auto simp add: tf_dispose_def)
  ultimately show ?thesis
    by (simp add: 1 2 3)
qed

section \<open>The relative strength index\<close>

text \<open>
  On finite prices every entry of \<open>calculateRSIArray\<close> is a number from 0 to 100, and
  the entries below \<open>period\<close> are 50; \<open>calculateRSI\<close> of the real-data variant is in
  the same range.
\<close>

lemma fold_invariant:
  assumes "I s" and "\<And>x s. x \<in> set xs \<Longrightarrow> I s \<Longrightarrow> I (f x s)"
  shows "I (fold f xs s)"
  using assms by (induction xs arbitrary: s) simp_all

lemma num_at_js_set_other: "i \<noteq> j \<Longrightarrow> num_at (js_set xs j v) i = num_at xs i"
  by (auto simp add: num_at_def js_set_def nth_append)

lemma rsi_below_period:
  assumes "i < period"
  shows "num_at (calculateRSIArray prices period) i = (if i < length prices then Num 50 else NaN)"
proof (cases "length prices < period + 1")
  case True
  then show ?thesis by (simp add: calculateRSIArray_def num_at_def)
next
  case False
  have "\<And>s. num_at (snd (snd (rsi_rolling prices period s))) i = num_at (snd (snd s)) i"
  proof -
    fix s :: "jsnum \<times> jsnum \<times> jsnum list"
    show "num_at (snd (snd (rsi_rolling prices period s))) i = num_at (snd (snd s)) i"
      unfolding rsi_rolling_def
      by (rule fold_invariant[where I = "\<lambda>t. num_at (snd (snd t)) i = num_at (snd (snd s)) i"])
        (use assms in \<open>auto simp add: Let_def num_at_js_set_other split: prod.splits\<close>)
  qed
  then show ?thesis using False
    by (simp add: calculateRSIArray_def Let_def num_at_def)
qed

lemma rsi_value_Num [simp]: "rsi_value (Num r) \<longleftrightarrow> 0 \<le> r \<and> r \<le> 100"
  by (simp add: rsi_value_def)

lemma rsi_value_formula:
  assumes "0 \<le> g" "0 \<le> l"
  shows "rsi_value (Num 100 - Num 100 / (Num 1 + (if js_eq (Num l) (Num 0) then Num 100 else Num g / Num l)))"
proof (cases "l = 0")
  case True
  then show ?thesis by (simp add: js_eq_def minus_jsnum_def)
next
  case False
  then have "0 < l" using assms by simp
  then have "0 \<le> g / l" using assms by simp
  then have a: "1 \<le> 1 + g / l" by simp
  then have "0 < 100 / (1 + g / l)" "100 / (1 + g / l) \<le> 100"
    by (simp_all add: divide_le_eq)
  moreover have "1 + g / l \<noteq> 0" using a by linarith
  ultimately show ?thesis using False
    by (simp add: js_eq_def minus_jsnum_def)
qed

lemma rsi_initial_finite:
  assumes "period < length ps"
  shows "\<exists>g l. rsi_initial (map Num ps) period = (Num g, Num l) \<and> 0 \<le> g \<and> 0 \<le> l"
  unfolding rsi_initial_def
  by (rule fold_invariant[where I = "\<lambda>t. \<exists>g l. t = (Num g, Num l) \<and> 0 \<le> g \<and> 0 \<le> l"])
    (use assms in \<open>auto simp add: Let_def num_at_def js_gt_def minus_jsnum_def\<close>)

lemma rsi_rolling_finite:
  assumes p: "0 < period" and g: "0 \<le> g" and l: "0 \<le> l"
    and res: "length res = length ps" "\<forall>c \<in> set res. rsi_value c"
  shows "\<forall>c \<in> set (snd (snd (rsi_rolling (map Num ps) period (Num g, Num l, res)))). rsi_value c"
proof -
  let ?I = "\<lambda>t. \<exists>g l r. t = (Num g, Num l, r) \<and> 0 \<le> g \<and> 0 \<le> l \<and> length r = length ps \<and>
      (\<forall>c \<in> set r. rsi_value c)"
  have "?I (rsi_rolling (map Num ps) period (Num g, Num l, res))"
    unfolding rsi_rolling_def
  proof (rule fold_invariant[where I = ?I])
    show "?I (Num g, Num l, res)" using g l res by simp
  next
    fix x and s :: "jsnum \<times> jsnum \<times> jsnum list"
    assume x: "x \<in> set [period..<length (map Num ps)]" and "?I s"
    then obtain g l r where s: "s = (Num g, Num l, r)" "0 \<le> g" "0 \<le> l" "length r = length ps"
      "\<forall>c \<in> set r. rsi_value c" by blast
    from x p have xr: "x < length ps" "x - 1 < length ps" "period \<le> x" by auto
    define c where "c = ps ! x - ps ! (x - 1)"
    define g' where "g' = (g * (real period - 1) + (if 0 < c then c else 0)) / real period"
    define l' where "l' = (l * (real period - 1) + (if c < 0 then \<bar>c\<bar> else 0)) / real period"
    have pp: "0 \<le> real period - 1" "real period \<noteq> 0" using p by simp_all
    have g'0: "0 \<le> g'" using s(2) pp p by (simp add: g'_def)
    have l'0: "0 \<le> l'" using s(3) pp p by (simp add: l'_def)
    have change: "num_at (map Num ps) x - num_at (map Num ps) (x - 1) = Num c"
      using xr by (simp add: num_at_def minus_jsnum_def c_def)
    have v: "rsi_value (Num 100 - Num 100 / (Num 1 + (if js_eq (Num l') (Num 0) then Num 100 else Num g' / Num l')))"
      by (rule rsi_value_formula[OF g'0 l'0])
    have set_ok: "\<And>v. rsi_value v \<Longrightarrow> \<forall>c \<in> set (js_set r x v). rsi_value c"
      using s(4,5) xr by (auto simp add: js_set_def dest: set_update_subset_insert[THEN subsetD])
    have len_ok: "\<And>v. length (js_set r x v) = length ps"
      using s(4) xr by (simp add: js_set_def)
    have gain: "(if js_gt (Num c) (Num 0) then Num c else Num 0) = Num (if 0 < c then c else 0)"
      by (simp add: js_gt_def)
    have loss: "(if js_lt (Num c) (Num 0) then \<bar>Num c\<bar> else Num 0) = Num (if c < 0 then \<bar>c\<bar> else 0)"
      by simp
    have ag: "(Num g * Num (real period - 1) + Num (if 0 < c then c else 0)) / Num (real period) = Num g'"
      using pp by (simp add: g'_def)
    have al: "(Num l * Num (real period - 1) + Num (if c < 0 then \<bar>c\<bar> else 0)) / Num (real period) = Num l'"
      using pp by (simp add: l'_def)
    have step: "(\<lambda>i (avgGain, avgLoss, result).
             let change = num_at (map Num ps) i - num_at (map Num ps) (i - 1);
                 gain = (if js_gt change (Num 0) then change else Num 0);
                 loss = (if js_lt change (Num 0) then \<bar>change\<bar> else Num 0);
                 avgGain' = (avgGain * Num (real period - 1) + gain) / Num (real period);
                 avgLoss' = (avgLoss * Num (real period - 1) + loss) / Num (real period);
                 rs = (if js_eq avgLoss' (Num 0) then Num 100 else avgGain' / avgLoss')
             in (avgGain', avgLoss', js_set result i (Num 100 - Num 100 / (Num 1 + rs)))) x s =
        (Num g', Num l', js_set r x (Num 100 - Num 100 /
           (Num 1 + (if js_eq (Num l') (Num 0) then Num 100 else Num g' / Num l'))))"
      unfolding s(1) Let_def change gain loss by (simp only: prod.case ag al)
    show "?I ((\<lambda>i (avgGain, avgLoss, result).
             let change = num_at (map Num ps) i - num_at (map Num ps) (i - 1);
                 gain = (if js_gt change (Num 0) then change else Num 0);
                 loss = (if js_lt change (Num 0) then \<bar>change\<bar> else Num 0);
                 avgGain' = (avgGain * Num (real period - 1) + gain) / Num (real period);
                 avgLoss' = (avgLoss * Num (real period - 1) + loss) / Num (real period);
                 rs = (if js_eq avgLoss' (Num 0) then Num 100 else avgGain' / avgLoss')
             in (avgGain', avgLoss', js_set result i (Num 100 - Num 100 / (Num 1 + rs)))) x s)"
      unfolding step using g'0 l'0 set_ok[OF v] len_ok by blast
  qed
  then show ?thesis by auto
qed

lemma calculateRSIArray_range:
  assumes "0 < period"
  shows "\<forall>c \<in> set (calculateRSIArray (map Num ps) period). rsi_value c"
proof (cases "length ps < period + 1")
  case True
  then show ?thesis by (simp add: calculateRSIArray_def rsi_value_def)
next
  case False
  then have lt: "period < length ps" by simp
  obtain g l where i: "rsi_initial (map Num ps) period = (Num g, Num l)" "0 \<le> g" "0 \<le> l"
    using rsi_initial_finite[OF lt] by blast
  have p: "real period \<noteq> 0" using assms by simp
  have "\<forall>c \<in> set (snd (snd (rsi_rolling (map Num ps) period
      (Num (g / real period), Num (l / real period), replicate (length ps) (Num 50))))). rsi_value c"
    using assms i by (intro rsi_rolling_finite) (simp_all add: rsi_value_def)
  then show ?thesis using False p
    by (simp add: calculateRSIArray_def Let_def i)
qed

lemma gains_finite:
  assumes "\<forall>c \<in> set cs. c \<noteq> PosInf \<and> c \<noteq> NegInf"
  shows "\<exists>gs. filter (\<lambda>c. js_gt c (Num 0)) cs = map Num gs \<and> (\<forall>g \<in> set gs. 0 < g)"
  using assms
proof (induction cs)
  case Nil
  then show ?case by simp
next
  case (Cons c cs)
  then obtain gs where gs: "filter (\<lambda>c. js_gt c (Num 0)) cs = map Num gs" "\<forall>g \<in> set gs. 0 < g"
    by auto
  from Cons.prems have "c \<noteq> PosInf" "c \<noteq> NegInf" by simp_all
  then show ?case
  proof (cases c)
    case (Num x)
    show ?thesis
    proof (cases "0 < x")
      case True
      then have "filter (\<lambda>c. js_gt c (Num 0)) (c # cs) = map Num (x # gs) \<and> (\<forall>g \<in> set (x # gs). 0 < g)"
        using gs Num by (simp add: js_gt_def)
      then show ?thesis by blast
    next
      case False
      then show ?thesis using gs Num by (auto simp add: js_gt_def)
    qed
  next
    case NaN
    then show ?thesis using gs by (auto simp add: js_gt_def)
  qed simp_all
qed

lemma losses_finite:
  assumes "\<forall>c \<in> set cs. c \<noteq> PosInf \<and> c \<noteq> NegInf"
  shows "\<exists>ls. map abs (filter (\<lambda>c. js_lt c (Num 0)) cs) = map Num ls \<and> (\<forall>l \<in> set ls. 0 < l)"
  using assms
proof (induction cs)
  case Nil
  then show ?case by simp
next
  case (Cons c cs)
  then obtain ls where ls: "map abs (filter (\<lambda>c. js_lt c (Num 0)) cs) = map Num ls" "\<forall>l \<in> set ls. 0 < l"
    by auto
  from Cons.prems have "c \<noteq> PosInf" "c \<noteq> NegInf" by simp_all
  then show ?case
  proof (cases c)
    case (Num x)
    show ?thesis
    proof (cases "x < 0")
      case True
      then have "map abs (filter (\<lambda>c. js_lt c (Num 0)) (c # cs)) = map Num (\<bar>x\<bar> # ls) \<and>
          (\<forall>l \<in> set (\<bar>x\<bar> # ls). 0 < l)"
        using ls Num by simp
      then show ?thesis by blast
    next
      case False
      then show ?thesis using ls Num by auto
    qed
  next
    case NaN
    then show ?thesis using ls by auto
  qed simp_all
qed

lemma change_finite: "num_at (map Num ps) i - num_at (map Num ps) j \<noteq> PosInf \<and>
    num_at (map Num ps) i - num_at (map Num ps) j \<noteq> NegInf"
  by (simp add: num_at_def minus_jsnum_def)

lemma calculateRSI_range:
  assumes "0 < period"
  shows "rsi_value (calculateRSI (map Num ps) index period)"
proof (cases "index < period")
  case True
  then show ?thesis by (simp add: calculateRSI_def rsi_value_def)
next
  case False
  define cs where "cs = map (\<lambda>i. num_at (map Num ps) i - num_at (map Num ps) (i - 1))
                        (filter (\<lambda>i. 0 < i) [index + 1 - period..<index + 1])"
  have fin: "\<forall>c \<in> set cs. c \<noteq> PosInf \<and> c \<noteq> NegInf"
    unfolding cs_def using change_finite by auto
  obtain gs where gs: "filter (\<lambda>c. js_gt c (Num 0)) cs = map Num gs" "\<forall>g \<in> set gs. 0 < g"
    using gains_finite[OF fin] by blast
  obtain ls where ls: "map abs (filter (\<lambda>c. js_lt c (Num 0)) cs) = map Num ls" "\<forall>l \<in> set ls. 0 < l"
    using losses_finite[OF fin] by blast
  define g where "g = (if gs = [] then 0 else sum_list gs / real period)"
  define l where "l = (if ls = [] then 0 else sum_list ls / real period)"
  have g0: "0 \<le> g" using gs(2) assms by (simp add: g_def sum_list_nonneg less_imp_le)
  have l0: "0 \<le> l" using ls(2) assms by (simp add: l_def sum_list_nonneg less_imp_le)
  have p: "real period \<noteq> 0" using assms by simp
  have avgGain: "(if 0 < length (filter (\<lambda>c. js_gt c (Num 0)) cs)
       then js_sum (filter (\<lambda>c. js_gt c (Num 0)) cs) / Num (real period) else Num 0) = Num g"
    unfolding gs(1) using p by (simp add: js_sum_map_Num g_def)
  have avgLoss: "(if 0 < length (map abs (filter (\<lambda>c. js_lt c (Num 0)) cs))
       then js_sum (map abs (filter (\<lambda>c. js_lt c (Num 0)) cs)) / Num (real period) else Num 0) = Num l"
    unfolding ls(1) using p by (simp add: js_sum_map_Num l_def)
  have eq: "calculateRSI (map Num ps) index period =
      (if l = 0 then Num 100 else Num (100 - 100 / (1 + g / l)))"
    using False g0 l0
    unfolding calculateRSI_def Let_def cs_def[symmetric] avgGain avgLoss
    by (auto simp add: js_eq_def minus_jsnum_def add_nonneg_eq_0_iff)
  show ?thesis
  proof (cases "l = 0")
    case True
    then show ?thesis using eq by (simp add: rsi_value_def)
  next
    case nz: False
    then have "0 < l" using l0 by simp
    then have "0 \<le> g / l" using g0 by simp
    then have "1 \<le> 1 + g / l" by simp
    then have "0 < 100 / (1 + g / l)" "100 / (1 + g / l) \<le> 100"
      by (simp_all add: divide_le_eq)
    then show ?thesis using eq nz by (simp add: rsi_value_def)
  qed
qed

text \<open>
  Claim C8 on the prices 1, 2, ..., 15, which never fall: the average loss is 0. At index
  14 the optimized \<open>calculateRSIArray\<close> yields 100 - 100 / 101, and \<open>calculateRSI\<close> of
  the real-data variant yields 100.
\<close>

theorem rsi_zero_loss_optimized:
  "num_at (calculateRSIArray (map (\<lambda>k. Num (real k)) [1..<16]) 14) 14 = Num (10000 / 101) \<and>
   calculateRSI (map (\<lambda>k. Num (real k)) [1..<16]) 14 14 = Num 100"
  by code_simp

section \<open>Normalization in closed form\<close>

lemma length_js_set: "length (js_set xs i v) = max (length xs) (Suc i)"
  by (simp add: js_set_def)

lemma js_set_in_range: "i < length xs \<Longrightarrow> js_set xs i v = xs[i := v]"
  by (simp add: js_set_def)

lemma fold_js_set_map:
  assumes "m \<le> length fs"
  shows "fold (\<lambda>i fs. js_set fs i (g i (num_at fs i))) [0..<m] fs =
         map (\<lambda>i. if i < m then g i (fs ! i) else fs ! i) [0..<length fs]"
  using assms
proof (induction m)
  case 0
  then show ?case by (simp add: map_nth)
next
  case (Suc m)
  then have m: "m < length fs" by simp
  have "fold (\<lambda>i fs. js_set fs i (g i (num_at fs i))) [0..<Suc m] fs =
        js_set (map (\<lambda>i. if i < m then g i (fs ! i) else fs ! i) [0..<length fs]) m
          (g m (num_at (map (\<lambda>i. if i < m then g i (fs ! i) else fs ! i) [0..<length fs]) m))"
    using Suc by simp
  also have "\<dots> = (map (\<lambda>i. if i < m then g i (fs ! i) else fs ! i) [0..<length fs])[m := g m (fs ! m)]"
    using m by (simp add: js_set_def num_at_def)
  also have "\<dots> = map (\<lambda>i. if i < Suc m then g i (fs ! i) else fs ! i) [0..<length fs]"
    using m by (intro nth_equalityI) (auto simp add: nth_list_update less_Suc_eq)
  finally show ?case .
qed

lemma fold_js_set_all:
  "fold (\<lambda>i fs. js_set fs i (g i (num_at fs i))) [0..<length fs] fs =
   map (\<lambda>i. g i (num_at fs i)) [0..<length fs]"
proof -
  have "fold (\<lambda>i fs. js_set fs i (g i (num_at fs i))) [0..<length fs] fs =
        map (\<lambda>i. if i < length fs then g i (fs ! i) else fs ! i) [0..<length fs]"
    by (rule fold_js_set_map) simp
  also have "\<dots> = map (\<lambda>i. g i (num_at fs i)) [0..<length fs]"
    by (rule map_cong) (simp_all add: num_at_def)
  finally show ?thesis .
qed

lemma foldl_js_sum: "foldl (\<lambda>sum x. sum + f x) (Num 0) xs = js_sum (map f xs)"
  by (simp add: js_sum_def foldl_map)

lemma normalizeFeatures_uniform:
  fixes st :: "'a DataProcessor_scheme"
  assumes ne: "processedData st \<noteq> []"
    and len: "\<forall>v \<in> set (processedData st). length (features v) = d"
  defines "pd \<equiv> processedData st"
  defines "mean \<equiv> \<lambda>j. js_sum (map (\<lambda>v. num_at (features v) j) pd) / num_length pd"
  defines "std \<equiv> \<lambda>j. js_or (js_sqrt
      (js_sum (map (\<lambda>v. js_pow2 (num_at (features v) j - mean j)) pd) / num_length pd)) (Num 1)"
  shows "normalizeFeatures st =
     st\<lparr>processedData :=
          map (\<lambda>v. v\<lparr>features := map (\<lambda>j. (num_at (features v) j - mean j) / std j) [0..<d]\<rparr>) pd,
        scaler := Some \<lparr>means = map mean [0..<d], stds = map std [0..<d]\<rparr>\<rparr>"
proof -
  have hd: "length (features (hd pd)) = d" using ne len by (simp add: pd_def)
  have means_at: "\<And>j. j < d \<Longrightarrow> num_at (map mean [0..<d]) j = mean j"
    by (simp add: num_at_def)
  have stds_eq: "map (\<lambda>i. js_or (js_sqrt (js_sum (map (\<lambda>v. js_pow2 (num_at (features v) i -
        num_at (map mean [0..<d]) i)) pd) / num_length pd)) (Num 1)) [0..<d] = map std [0..<d]"
    by (rule map_cong) (simp_all add: std_def means_at)
  have stds_at: "\<And>j. j < d \<Longrightarrow> num_at (map std [0..<d]) j = std j"
    by (simp add: num_at_def)
  have norm: "\<And>v. v \<in> set pd \<Longrightarrow>
     fold (\<lambda>i fs. js_set fs i ((num_at fs i - num_at (map mean [0..<d]) i) / num_at (map std [0..<d]) i))
       [0..<d] (features v) = map (\<lambda>j. (num_at (features v) j - mean j) / std j) [0..<d]"
  proof -
    fix v assume "v \<in> set pd"
    then have l: "length (features v) = d" using len by (simp add: pd_def)
    show "fold (\<lambda>i fs. js_set fs i ((num_at fs i - num_at (map mean [0..<d]) i) / num_at (map std [0..<d]) i))
       [0..<d] (features v) = map (\<lambda>j. (num_at (features v) j - mean j) / std j) [0..<d]"
      using fold_js_set_all[of "\<lambda>i x. (x - num_at (map mean [0..<d]) i) / num_at (map std [0..<d]) i" "features v"]
      unfolding l by (simp add: means_at stds_at cong: map_cong)
  qed
  show ?thesis
    using ne
    unfolding normalizeFeatures_def Let_def pd_def[symmetric] hd foldl_js_sum
    apply (simp add: pd_def[symmetric] mean_def[symmetric] stds_eq)
    apply (simp add: pd_def norm[unfolded pd_def] cong: map_cong)
    done
qed

lemma normalizeFeatures_shape:
  fixes st :: "'a DataProcessor_scheme"
  assumes ne: "processedData st \<noteq> []"
    and len: "\<forall>v \<in> set (processedData st). length (features v) = 6"
  shows "length (processedData (normalizeFeatures st)) = length (processedData st)"
    and "\<And>k. k < length (processedData st) \<Longrightarrow>
      length (features (processedData (normalizeFeatures st) ! k)) = 6 \<and>
      target (processedData (normalizeFeatures st) ! k) = target (processedData st ! k) \<and>
      fv_price (processedData (normalizeFeatures st) ! k) = fv_price (processedData st ! k) \<and>
      fv_date (processedData (normalizeFeatures st) ! k) = fv_date (processedData st ! k)"
  by (simp_all add: normalizeFeatures_uniform[OF ne len])

section \<open>The processed set of a run\<close>

lemma length_opt_vectors: "length (opt_vectors raw) = length raw - 11"
  by (simp add: opt_vectors_def Let_def)

lemma features_opt_vectors: "v \<in> set (opt_vectors raw) \<Longrightarrow> length (features v) = 6"
  by (auto simp add: opt_vectors_def Let_def opt_features_def)

lemma nth_opt_vectors:
  assumes "k < length raw - 11"
  shows "target (opt_vectors raw ! k) = price (raw ! (10 + k + 1))"
    and "fv_price (opt_vectors raw ! k) = price (raw ! (10 + k))"
    and "fv_date (opt_vectors raw ! k) = date (raw ! (10 + k))"
  using assms by (auto simp add: opt_vectors_def Let_def opt_features_def num_at_def)

lemma features_real_features: "length (features (real_features raw i)) = 6"
  by (simp add: real_features_def Let_def)

lemma nth_real_vectors:
  assumes "k < length raw - 15"
  shows "target (map (real_features raw) [14..<length raw - 1] ! k) = price (raw ! (14 + k + 1))"
    and "fv_price (map (real_features raw) [14..<length raw - 1] ! k) = price (raw ! (14 + k))"
    and "fv_date (map (real_features raw) [14..<length raw - 1] ! k) = date (raw ! (14 + k))"
  using assms by (auto simp add: real_features_def Let_def num_at_def)

lemma processFeatures_real_run:
  assumes "20 \<le> length (rawData st)"
  shows "processFeatures_real st =
     Inr (normalizeFeatures
           (st\<lparr>processedData := map (real_features (rawData st)) [14..<length (rawData st) - 1]\<rparr>))"
  using assms by (simp add: processFeatures_real_def)

lemma processFeatures_opt_miss:
  assumes n: "20 \<le> length (rawData ct)" and miss: "cache ct (generateCacheKey ct) = None"
  defines "vs \<equiv> opt_vectors (rawData ct)"
  defines "mean \<equiv> \<lambda>j. js_sum (map (\<lambda>v. num_at (features v) j) vs) / num_length vs"
  defines "std \<equiv> \<lambda>j. js_or (js_sqrt
      (js_sum (map (\<lambda>v. js_pow2 (num_at (features v) j - mean j)) vs) / num_length vs)) (Num 1)"
  defines "normalized \<equiv> \<lambda>v. v\<lparr>features := map (\<lambda>j. (num_at (features v) j - mean j) / std j) [0..<6]\<rparr>"
  shows "processFeatures_opt ct =
     Inr (ct\<lparr>processedData := map normalized vs,
             scaler := Some \<lparr>means = map mean [0..<6], stds = map std [0..<6]\<rparr>,
             cache := (cache ct)(generateCacheKey ct \<mapsto> map normalized vs)\<rparr>)"
proof -
  let ?s1 = "ct\<lparr>processedData := vs\<rparr>"
  have "0 < length vs" using n unfolding vs_def length_opt_vectors by linarith
  then have ne: "processedData ?s1 \<noteq> []" by simp
  have len: "\<forall>v \<in> set (processedData ?s1). length (features v) = 6"
    by (auto simp add: vs_def features_opt_vectors)
  have norm: "normalizeFeatures ?s1 =
     ct\<lparr>processedData := map normalized vs,
        scaler := Some \<lparr>means = map mean [0..<6], stds = map std [0..<6]\<rparr>\<rparr>"
    using normalizeFeatures_uniform[OF ne len]
    by (simp add: mean_def std_def normalized_def)
  show ?thesis
    using n miss
    by (simp add: processFeatures_opt_def Let_def vs_def[symmetric] norm)
qed

lemma length_series: "length flat_series = 20" "length step_series = 20"
  by (simp_all add: flat_series_def step_series_def)

lemma fresh_fields:
  "rawData (fresh raw) = raw" "cache (fresh raw) k = None"
  by (simp_all add: fresh_def)

lemma processFeatures_opt_length:
  assumes "20 \<le> length (rawData ct)" and "cache ct (generateCacheKey ct) = None"
  shows "map_sum id (\<lambda>st'. length (processedData st')) (processFeatures_opt ct) =
     Inr (length (rawData ct) - 11)"
  unfolding processFeatures_opt_miss[OF assms] by (simp add: length_opt_vectors)

section \<open>Count and width of the feature vectors\<close>

text \<open>
  Claim C3, as stated, fails twice. A series of 16 observations has the length
  \<open>W + 2\<close> for \<open>W = 14\<close>, and the real-data \<open>processFeatures\<close> raises on it instead of
  returning one vector. On 20 observations the optimized \<open>processFeatures\<close> returns 9
  vectors, not \<open>20 - 14 - 1 = 5\<close>: its loop starts at index 10.
\<close>

theorem short_series_rejected:
  "processFeatures_real \<lparr>rawData = take 16 flat_series, processedData = [], scaler = None\<rparr> =
     Inl (Error ''Insufficient data for feature processing'') \<and>
   map_sum id (\<lambda>st'. length (processedData st')) (processFeatures_opt (fresh flat_series)) =
     Inr 9"
proof -
  have "processFeatures_real \<lparr>rawData = take 16 flat_series, processedData = [], scaler = None\<rparr> =
     Inl (Error ''Insufficient data for feature processing'')"
    by (simp add: processFeatures_real_def length_series)
  moreover have "map_sum id (\<lambda>st'. length (processedData st'))
      (processFeatures_opt (fresh flat_series)) = Inr 9"
    using processFeatures_opt_length[of "fresh flat_series"]
    by (simp add: fresh_fields length_series)
  ultimately show ?thesis by blast
qed

text \<open>
  Claim C3, amended. For a series of \<open>n \<ge> 20\<close> observations the real-data
  \<open>processFeatures\<close> returns exactly \<open>n - 14 - 1\<close> vectors, one per index \<open>i\<close> from 14 to
  \<open>n - 2\<close>, each of 6 features, with target \<open>price[i + 1]\<close> and price \<open>price[i]\<close>. The
  optimized \<open>processFeatures\<close>, when the series is not in the cache, returns
  \<open>n - 10 - 1\<close> such vectors, one per index from 10 to \<open>n - 2\<close>.
\<close>

theorem processFeatures_vectors:
  "(20 \<le> length (rawData st) \<longrightarrow>
      (\<exists>st'. processFeatures_real st = Inr st' \<and>
         length (processedData st') = length (rawData st) - 14 - 1 \<and>
         (\<forall>k < length (rawData st) - 14 - 1.
            length (features (processedData st' ! k)) = 6 \<and>
            target (processedData st' ! k) = price (rawData st ! (14 + k + 1)) \<and>
            fv_price (processedData st' ! k) = price (rawData st ! (14 + k))))) \<and>
   (20 \<le> length (rawData ct) \<and> cache ct (generateCacheKey ct) = None \<longrightarrow>
      (\<exists>ct'. processFeatures_opt ct = Inr ct' \<and>
         length (processedData ct') = length (rawData ct) - 10 - 1 \<and>
         (\<forall>k < length (rawData ct) - 10 - 1.
            length (features (processedData ct' ! k)) = 6 \<and>
            target (processedData ct' ! k) = price (rawData ct ! (10 + k + 1)) \<and>
            fv_price (processedData ct' ! k) = price (rawData ct ! (10 + k)))))"
proof (intro conjI impI)
  assume n: "20 \<le> length (rawData st)"
  let ?raw = "rawData st"
  let ?s1 = "st\<lparr>processedData := map (real_features ?raw) [14..<length ?raw - 1]\<rparr>"
  have ne: "processedData ?s1 \<noteq> []" using n by simp
  have len: "\<forall>v \<in> set (processedData ?s1). length (features v) = 6"
    by (auto simp add: features_real_features)
  have l: "length (processedData ?s1) = length ?raw - 15" by simp
  have run: "processFeatures_real st = Inr (normalizeFeatures ?s1)"
    using n by (simp add: processFeatures_real_def)
  show "\<exists>st'. processFeatures_real st = Inr st' \<and>
         length (processedData st') = length (rawData st) - 14 - 1 \<and>
         (\<forall>k < length (rawData st) - 14 - 1.
            length (features (processedData st' ! k)) = 6 \<and>
            target (processedData st' ! k) = price (rawData st ! (14 + k + 1)) \<and>
            fv_price (processedData st' ! k) = price (rawData st ! (14 + k)))"
    unfolding run
    using normalizeFeatures_shape[OF ne len] nth_real_vectors[of _ ?raw] l
    by simp
next
  assume a: "20 \<le> length (rawData ct) \<and> cache ct (generateCacheKey ct) = None"
  let ?raw = "rawData ct"
  let ?s1 = "ct\<lparr>processedData := opt_vectors ?raw\<rparr>"
  have l: "length (processedData ?s1) = length ?raw - 11" by (simp add: length_opt_vectors)
  have "0 < length (processedData ?s1)" using a unfolding l by linarith
  then have ne: "processedData ?s1 \<noteq> []" by blast
  have len: "\<forall>v \<in> set (processedData ?s1). length (features v) = 6"
    by (auto simp add: features_opt_vectors)
  have run: "processFeatures_opt ct = Inr ((normalizeFeatures ?s1)\<lparr>cache :=
      (cache (normalizeFeatures ?s1))(generateCacheKey ct \<mapsto> processedData (normalizeFeatures ?s1))\<rparr>)"
    using a by (simp add: processFeatures_opt_def Let_def)
  show "\<exists>ct'. processFeatures_opt ct = Inr ct' \<and>
         length (processedData ct') = length (rawData ct) - 10 - 1 \<and>
         (\<forall>k < length (rawData ct) - 10 - 1.
            length (features (processedData ct' ! k)) = 6 \<and>
            target (processedData ct' ! k) = price (rawData ct ! (10 + k + 1)) \<and>
            fv_price (processedData ct' ! k) = price (rawData ct ! (10 + k)))"
    unfolding run
    using normalizeFeatures_shape[OF ne len] nth_opt_vectors[of _ ?raw] l
    by simp
qed

theorem processFeatures_vectors_witness:
  "map_sum id (\<lambda>st'. (length (processedData st'), length (features (processedData st' ! 0)),
       target (processedData st' ! 0)))
     (processFeatures_real \<lparr>rawData = step_series, processedData = [], scaler = None\<rparr>) =
     Inr (5, 6, Num 1) \<and>
   map_sum id (\<lambda>st'. (length (processedData st'), length (features (processedData st' ! 8)),
       target (processedData st' ! 8)))
     (processFeatures_opt (fresh step_series)) = Inr (9, 6, Num 1)"
proof -
  note T = processFeatures_vectors
    [of "\<lparr>rawData = step_series, processedData = [], scaler = None\<rparr>" "fresh step_series"]
  have p15: "price (step_series ! 15) = Num 1" and p19: "price (step_series ! 19) = Num 1"
    by (simp_all add: step_series_def)
  from T obtain st' where r: "processFeatures_real \<lparr>rawData = step_series, processedData = [], scaler = None\<rparr> = Inr st'"
    "length (processedData st') = 5" "length (features (processedData st' ! 0)) = 6"
    "target (processedData st' ! 0) = Num 1"
    by (auto simp add: length_series p15)
  from T obtain ct' where c: "processFeatures_opt (fresh step_series) = Inr ct'"
    "length (processedData ct') = 9" "length (features (processedData ct' ! 8)) = 6"
    "target (processedData ct' ! 8) = Num 1"
    by (auto simp add: length_series fresh_fields p19)
  show ?thesis by (simp add: r c)
qed

section \<open>The scope of the scaler\<close>

lemma flat_mean:
  "js_sum (map (\<lambda>v. num_at (features v) 0) (opt_vectors flat_series))
     / num_length (opt_vectors flat_series) = Num 1"
  by code_simp

lemma step_mean:
  "js_sum (map (\<lambda>v. num_at (features v) 0) (opt_vectors step_series))
     / num_length (opt_vectors step_series) = Num (46 / 45)"
  by code_simp

lemma flat_step_train:
  "take 7 (opt_vectors flat_series) = take 7 (opt_vectors step_series)"
  by code_simp

lemma split_nine:
  assumes "length (processedData st) = 9"
  shows "length (fst (splitData DATA_CONFIG st)) = 7"
proof -
  have "nat \<lfloor>real 9 * (8 / 10)\<rfloor> = 7" by simp
  with splitData_boundary[of DATA_CONFIG "8/10" st] assms show ?thesis
    by (simp add: DATA_CONFIG_def)
qed

text \<open>
  Claim C1, as stated, fails. The flat and the step series differ at index 18 only, which
  reaches the last two of the 9 vectors alone: the 7 vectors of the train partition are
  the same for both before normalization. Yet the scaler stored by \<open>processFeatures\<close> has
  the first mean 1 for the flat series and 46/45 for the step series: it is computed
  from the test partition too.
\<close>

theorem scaler_depends_on_test_partition:
  "take 7 (opt_vectors flat_series) = take 7 (opt_vectors step_series) \<and>
   map_sum id (\<lambda>st'. (length (fst (splitData DATA_CONFIG st')),
                      map_option (\<lambda>sc. num_at (means sc) 0) (scaler st')))
     (processFeatures_opt (fresh flat_series)) = Inr (7, Some (Num 1)) \<and>
   map_sum id (\<lambda>st'. (length (fst (splitData DATA_CONFIG st')),
                      map_option (\<lambda>sc. num_at (means sc) 0) (scaler st')))
     (processFeatures_opt (fresh step_series)) = Inr (7, Some (Num (46 / 45)))"
proof -
  have a: "20 \<le> length (rawData (fresh flat_series))" "cache (fresh flat_series) (generateCacheKey (fresh flat_series)) = None"
    by (simp_all add: fresh_def length_series)
  have b: "20 \<le> length (rawData (fresh step_series))" "cache (fresh step_series) (generateCacheKey (fresh step_series)) = None"
    by (simp_all add: fresh_def length_series)
  have la: "length (opt_vectors flat_series) = 9" "length (opt_vectors step_series) = 9"
    by (simp_all add: length_opt_vectors length_series)
  have ma: "num_at (map (\<lambda>j. js_sum (map (\<lambda>v. num_at (features v) j) (opt_vectors flat_series))
     / num_length (opt_vectors flat_series)) [0..<6]) 0 = Num 1"
    using flat_mean by (simp add: num_at_def upt_rec[of 0])
  have mb: "num_at (map (\<lambda>j. js_sum (map (\<lambda>v. num_at (features v) j) (opt_vectors step_series))
     / num_length (opt_vectors step_series)) [0..<6]) 0 = Num (46 / 45)"
    using step_mean by (simp add: num_at_def upt_rec[of 0])
  have ra: "rawData (fresh flat_series) = flat_series" "rawData (fresh step_series) = step_series"
    by (simp_all add: fresh_def)
  show ?thesis
    unfolding processFeatures_opt_miss[OF a] processFeatures_opt_miss[OF b] ra
    using flat_step_train ma mb
    by (simp add: split_nine la)
qed

text \<open>
  Claim C1, amended. On a series of at least 20 observations that is not in the cache,
  \<open>processFeatures\<close> stores the scaler whose means and standard deviations (1 in place of
  0) are taken per feature over all vectors of the processed set, before any split;
  the processed set is the set of these vectors normalized with that scaler, the two
  partitions of \<open>splitData\<close> together are this set, and the latest features are the
  normalized features of its last vector.
\<close>

theorem scaler_fit_on_whole_processed_set:
  assumes "20 \<le> length (rawData ct)" and "cache ct (generateCacheKey ct) = None"
  shows "\<exists>ct' sc. processFeatures_opt ct = Inr ct' \<and> scaler ct' = Some sc \<and>
     (let vs = opt_vectors (rawData ct);
          mean = (\<lambda>j. js_sum (map (\<lambda>v. num_at (features v) j) vs) / num_length vs);
          std = (\<lambda>j. js_or (js_sqrt
             (js_sum (map (\<lambda>v. js_pow2 (num_at (features v) j - mean j)) vs) / num_length vs)) (Num 1));
          normalized = (\<lambda>v. v\<lparr>features := map (\<lambda>j. (num_at (features v) j - mean j) / std j) [0..<6]\<rparr>)
      in means sc = map mean [0..<6] \<and> stds sc = map std [0..<6] \<and>
         processedData ct' = map normalized vs \<and>
         fst (splitData cfg ct') @ snd (splitData cfg ct') = map normalized vs \<and>
         getLatestFeatures ct' = Inr (Some (features (normalized (last vs)))))"
proof -
  have "0 < length (opt_vectors (rawData ct))"
    using assms(1) unfolding length_opt_vectors by linarith
  then have ne: "opt_vectors (rawData ct) \<noteq> []" by blast
  show ?thesis
    unfolding processFeatures_opt_miss[OF assms] Let_def
    using ne by (simp add: splitData_append getLatestFeatures_eq last_map)
qed

theorem scaler_fit_on_whole_processed_set_witness:
  "map_sum id (\<lambda>st'. map_option (\<lambda>sc. (length (means sc), length (stds sc))) (scaler st'))
     (processFeatures_opt (fresh step_series)) = Inr (Some (6, 6))"
proof -
  from scaler_fit_on_whole_processed_set[of "fresh step_series" DATA_CONFIG]
  obtain ct' sc where "processFeatures_opt (fresh step_series) = Inr ct'" "scaler ct' = Some sc"
    "length (means sc) = 6" "length (stds sc) = 6"
    by (auto simp add: Let_def fresh_fields length_series)
  then show ?thesis by simp
qed

end
